theory Spec2Isabelle
  imports Main
begin

section \<open>Go strings\<close>

text \<open>
  A Go string is a sequence of bytes, as \<^typ>\<open>string\<close> is. The functions of the
  \<^verbatim>\<open>strings\<close> package that the program calls are written out here.
\<close>

definition HasPrefix :: "string \<Rightarrow> string \<Rightarrow> bool" where
  "HasPrefix s p = (take (length p) s = p)"

fun Contains :: "string \<Rightarrow> string \<Rightarrow> bool" where
  "Contains [] sub = (sub = [])"
| "Contains (c # s) sub = (HasPrefix (c # s) sub \<or> Contains s sub)"

text \<open>
  \<^verbatim>\<open>strings.TrimSpace\<close> cuts the leading and the trailing white space, as Unicode
  defines it. These are the code points with the property White_Space, each given by
  its bytes in UTF-8: U+0009 to U+000D, U+0020, U+0085, U+00A0, U+1680, U+2000 to
  U+200A, U+2028, U+2029, U+202F, U+205F and U+3000.
\<close>

definition whiteSpace :: "string list" where
  "whiteSpace =
     [[CHR 0x09], [CHR 0x0A], [CHR 0x0B], [CHR 0x0C], [CHR 0x0D], [CHR 0x20],
      [CHR 0xC2, CHR 0x85], [CHR 0xC2, CHR 0xA0],
      [CHR 0xE1, CHR 0x9A, CHR 0x80],
      [CHR 0xE2, CHR 0x80, CHR 0x80], [CHR 0xE2, CHR 0x80, CHR 0x81],
      [CHR 0xE2, CHR 0x80, CHR 0x82], [CHR 0xE2, CHR 0x80, CHR 0x83],
      [CHR 0xE2, CHR 0x80, CHR 0x84], [CHR 0xE2, CHR 0x80, CHR 0x85],
      [CHR 0xE2, CHR 0x80, CHR 0x86], [CHR 0xE2, CHR 0x80, CHR 0x87],
      [CHR 0xE2, CHR 0x80, CHR 0x88], [CHR 0xE2, CHR 0x80, CHR 0x89],
      [CHR 0xE2, CHR 0x80, CHR 0x8A],
      [CHR 0xE2, CHR 0x80, CHR 0xA8], [CHR 0xE2, CHR 0x80, CHR 0xA9],
      [CHR 0xE2, CHR 0x80, CHR 0xAF],
      [CHR 0xE2, CHR 0x81, CHR 0x9F],
      [CHR 0xE3, CHR 0x80, CHR 0x80]]"

text \<open>As long as the string begins with one of the sequences, the sequence is cut off.\<close>

function stripLeading :: "string list \<Rightarrow> string \<Rightarrow> string" where
  "stripLeading seqs s =
     (case find (\<lambda>q. q \<noteq> [] \<and> HasPrefix s q) seqs of
        None \<Rightarrow> s
      | Some q \<Rightarrow> stripLeading seqs (drop (length q) s))"
  by pat_completeness auto
termination
proof (relation "measure (\<lambda>(seqs, s). length s)")
  show "wf (measure (\<lambda>(seqs, s). length s))" by simp
next
  fix seqs :: "string list" and s q :: string
  assume "find (\<lambda>q. q \<noteq> [] \<and> HasPrefix s q) seqs = Some q"
  then have "q \<noteq> []" and "HasPrefix s q" by (auto simp: find_Some_iff)
  then have "s \<noteq> []" by (auto simp: HasPrefix_def)
  with \<open>q \<noteq> []\<close> show "((seqs, drop (length q) s), (seqs, s)) \<in> measure (\<lambda>(seqs, s). length s)"
    by simp
qed

declare stripLeading.simps [simp del]

definition TrimSpace :: "string \<Rightarrow> string" where
  "TrimSpace s = rev (stripLeading (map rev whiteSpace) (rev (stripLeading whiteSpace s)))"

text \<open>\<^verbatim>\<open>strings.Split(s, ",")\<close>: the fields between the separators, at least one.\<close>

fun Split :: "string \<Rightarrow> char \<Rightarrow> string list" where
  "Split [] sep = [[]]"
| "Split (c # s) sep =
     (if c = sep then [] # Split s sep
      else (case Split s sep of f # fs \<Rightarrow> (c # f) # fs | [] \<Rightarrow> [[c]]))"

text \<open>\<^verbatim>\<open>strings.Join(elems, sep)\<close>.\<close>

fun Join :: "string list \<Rightarrow> string \<Rightarrow> string" where
  "Join [] sep = []"
| "Join [e] sep = e"
| "Join (e # es) sep = e @ sep @ Join es sep"

section \<open>The world of the certificate managers\<close>

type_synonym path = string
type_synonym Time = int
type_synonym Duration = int

text \<open>
  Times are nanoseconds since the epoch and durations are nanoseconds, as
  \<^verbatim>\<open>time.Duration\<close> is.
\<close>

definition Hour :: Duration where
  "Hour = 3600 * 1000000000"

definition Second :: Duration where
  "Second = 1000000000"

definition maxDuration :: Duration where
  "maxDuration = 2 ^ 63 - 1"

definition minDuration :: Duration where
  "minDuration = - (2 ^ 63)"

text \<open>\<^verbatim>\<open>t.Sub(u)\<close>: the difference, kept inside the 64 bits of a duration.\<close>

definition Sub :: "Time \<Rightarrow> Time \<Rightarrow> Duration" where
  "Sub t u =
     (let d = t - u
      in if d > maxDuration then maxDuration else if d < minDuration then minDuration else d)"

definition Before :: "Time \<Rightarrow> Time \<Rightarrow> bool" where
  "Before t u = (t < u)"

text \<open>
  What the libraries hand back is kept structured: a private key is known by its size
  and by the draw from \<^verbatim>\<open>rand.Reader\<close> that made it, DER bytes by what they encode,
  and the content of a file by the PEM block that \<^verbatim>\<open>pem.Decode\<close> finds in it, if any.
\<close>

datatype PrivateKey = PrivateKey int nat

record CertificateRequest =
  reqSubject :: string
  reqDNSNames :: "string list"

record Certificate =
  Subject :: string
  DNSNames :: "string list"
  NotBefore :: Time
  NotAfter :: Time

datatype der =
    PKCS1 PrivateKey
  | PKCS10 CertificateRequest
  | X509 Certificate
  | Malformed string

datatype content = Raw string | PEM string der

text \<open>The calls into the operating system and the libraries that can return an error.\<close>

datatype call =
    CallMkdirAll path
  | CallCreate path
  | CallEncode path
  | CallChmod path
  | CallWriteFile path
  | CallReadFile path
  | CallStat path
  | CallGenerateKey int
  | CallCreateCertificateRequest
  | CallParseCertificateRequest
  | CallParseCertificate
  | CallCreateCertificate

text \<open>
  The errors of package \<^verbatim>\<open>cert\<close>. The source builds each with \<^verbatim>\<open>fmt.Errorf\<close>
  from a message of its own; a message that wraps a cause with \<^verbatim>\<open>%w\<close> is a
  constructor that carries the cause.
\<close>

datatype error =
    Failed call
  | WildcardChallengeMismatch
  | WildcardNotWebroot
  | WildcardNotStandalone
  | UnsupportedChallenge int
  | UnsupportedWebServer
  | CreateCertDirFailed error
  | GenerateKeyFailed error
  | CreateCSRFailed error
  | CreateMultiCSRFailed error
  | ObtainCertificateFailed error
  | SaveCertificateFailed error
  | ConfigureWebServerFailed error
  | CertificateNotFound path
  | ReadCertificateFailed error
  | CertificateUnreadable
  | CertificateParseError error
  | GetCertInfoFailed error

text \<open>
  The mutable part of the machine: the files and directories, how often the clock has
  been read and how many keys have been drawn from \<^verbatim>\<open>rand.Reader\<close>.
\<close>

record world =
  files :: "path \<rightharpoonup> content"
  dirs :: "path set"
  reads :: nat
  draws :: nat

text \<open>
  What the program does not decide: the reading of the clock at each read, and which
  calls fail in which state.
\<close>

record host =
  clock :: "nat \<Rightarrow> Time"
  fails :: "call \<Rightarrow> world \<Rightarrow> bool"

definition time_Now :: "host \<Rightarrow> world \<Rightarrow> Time \<times> world" where
  "time_Now h w = (clock h (reads w), w\<lparr>reads := Suc (reads w)\<rparr>)"

definition time_Until :: "host \<Rightarrow> Time \<Rightarrow> world \<Rightarrow> Duration \<times> world" where
  "time_Until h t w = (case time_Now h w of (now, w') \<Rightarrow> (Sub t now, w'))"

text \<open>
  \<^verbatim>\<open>filepath.Clean\<close> and \<^verbatim>\<open>filepath.Join\<close>, as they are where the separator is the
  slash. \<open>cleanElems\<close> goes through the elements between the slashes with the elements
  kept so far, the last one first: an empty element and a dot are dropped, two dots
  take the element before them away, or stay when there is none to take and the path
  is not rooted.
\<close>

fun cleanElems :: "bool \<Rightarrow> string list \<Rightarrow> string list \<Rightarrow> string list" where
  "cleanElems rooted out [] = rev out"
| "cleanElems rooted out (e # es) =
     (if e = [] \<or> e = ''.'' then cleanElems rooted out es
      else if e = ''..'' then
        (case out of
           [] \<Rightarrow> if rooted then cleanElems rooted [] es else cleanElems rooted [''..''] es
         | lastElem # below \<Rightarrow>
             if lastElem = ''..'' then cleanElems rooted (''..'' # out) es
             else cleanElems rooted below es)
      else cleanElems rooted (e # out) es)"

definition Clean :: "path \<Rightarrow> path" where
  "Clean p =
     (if p = [] then ''.''
      else
        (let rooted = (hd p = CHR ''/'');
             elems = cleanElems rooted [] (Split p (CHR ''/''))
         in if rooted then CHR ''/'' # Join elems ''/''
            else if elems = [] then ''.'' else Join elems ''/''))"

text \<open>The empty elements are ignored; with no element left the result is empty.\<close>

definition filepath_Join :: "string list \<Rightarrow> path" where
  "filepath_Join elems =
     (let parts = filter (\<lambda>e. e \<noteq> []) elems
      in if parts = [] then [] else Clean (Join parts ''/''))"

definition os_MkdirAll :: "host \<Rightarrow> path \<Rightarrow> world \<Rightarrow> error option \<times> world" where
  "os_MkdirAll h p w =
     (if fails h (CallMkdirAll p) w then (Some (Failed (CallMkdirAll p)), w)
      else (None, w\<lparr>dirs := insert p (dirs w)\<rparr>))"

text \<open>\<^verbatim>\<open>os.Create\<close> makes the file or empties it.\<close>

definition os_Create :: "host \<Rightarrow> path \<Rightarrow> world \<Rightarrow> error option \<times> world" where
  "os_Create h p w =
     (if fails h (CallCreate p) w then (Some (Failed (CallCreate p)), w)
      else (None, w\<lparr>files := (files w)(p \<mapsto> Raw [])\<rparr>))"

text \<open>\<^verbatim>\<open>pem.Encode\<close> of one block into the file that was opened at the path.\<close>

definition pem_Encode :: "host \<Rightarrow> path \<Rightarrow> string \<Rightarrow> der \<Rightarrow> world \<Rightarrow> error option \<times> world" where
  "pem_Encode h p ty bytes w =
     (if fails h (CallEncode p) w then (Some (Failed (CallEncode p)), w)
      else (None, w\<lparr>files := (files w)(p \<mapsto> PEM ty bytes)\<rparr>))"

definition pem_Decode :: "content \<Rightarrow> (string \<times> der) option" where
  "pem_Decode c = (case c of Raw s \<Rightarrow> None | PEM ty bytes \<Rightarrow> Some (ty, bytes))"

text \<open>The file modes are not kept; \<^verbatim>\<open>os.Chmod\<close> can only fail.\<close>

definition os_Chmod :: "host \<Rightarrow> path \<Rightarrow> world \<Rightarrow> error option \<times> world" where
  "os_Chmod h p w =
     (if fails h (CallChmod p) w then (Some (Failed (CallChmod p)), w) else (None, w))"

definition os_WriteFile :: "host \<Rightarrow> path \<Rightarrow> string \<Rightarrow> world \<Rightarrow> error option \<times> world" where
  "os_WriteFile h p s w =
     (if fails h (CallWriteFile p) w then (Some (Failed (CallWriteFile p)), w)
      else (None, w\<lparr>files := (files w)(p \<mapsto> Raw s)\<rparr>))"

text \<open>
  \<^verbatim>\<open>os.Stat\<close> returns an error of one of three kinds. A path below a regular file is
  no path (ENOTDIR); the host can refuse the call (EACCES); and where neither is the
  case and nothing is at the path, the file does not exist (ENOENT). The paths above a
  path are what stands before each of its separators.
\<close>

datatype stat_error = ENOENT | ENOTDIR | EACCES

definition ancestors :: "path \<Rightarrow> path list" where
  "ancestors p = map (\<lambda>i. take i p) (filter (\<lambda>i. p ! i = CHR ''/'') [1..<length p])"

definition os_Stat :: "host \<Rightarrow> path \<Rightarrow> world \<Rightarrow> stat_error option" where
  "os_Stat h p w =
     (if list_ex (\<lambda>q. files w q \<noteq> None) (ancestors p) then Some ENOTDIR
      else if fails h (CallStat p) w then Some EACCES
      else if files w p = None \<and> p \<notin> dirs w then Some ENOENT
      else None)"

text \<open>\<^verbatim>\<open>os.IsNotExist\<close> is true of the error ENOENT only.\<close>

definition os_IsNotExist :: "stat_error option \<Rightarrow> bool" where
  "os_IsNotExist err = (err = Some ENOENT)"

definition os_ReadFile :: "host \<Rightarrow> path \<Rightarrow> world \<Rightarrow> error + content" where
  "os_ReadFile h p w =
     (case files w p of
        None \<Rightarrow> Inl (Failed (CallReadFile p))
      | Some c \<Rightarrow> if fails h (CallReadFile p) w then Inl (Failed (CallReadFile p)) else Inr c)"

definition rsa_GenerateKey :: "host \<Rightarrow> int \<Rightarrow> world \<Rightarrow> (error + PrivateKey) \<times> world" where
  "rsa_GenerateKey h bits w =
     (if fails h (CallGenerateKey bits) w then (Inl (Failed (CallGenerateKey bits)), w)
      else (Inr (PrivateKey bits (draws w)), w\<lparr>draws := Suc (draws w)\<rparr>))"

definition x509_CreateCertificateRequest ::
    "host \<Rightarrow> CertificateRequest \<Rightarrow> PrivateKey \<Rightarrow> world \<Rightarrow> error + der" where
  "x509_CreateCertificateRequest h template key w =
     (if fails h CallCreateCertificateRequest w then Inl (Failed CallCreateCertificateRequest)
      else Inr (PKCS10 template))"

definition x509_ParseCertificateRequest :: "der \<Rightarrow> error + CertificateRequest" where
  "x509_ParseCertificateRequest bytes =
     (case bytes of PKCS10 r \<Rightarrow> Inr r | _ \<Rightarrow> Inl (Failed CallParseCertificateRequest))"

text \<open>
  DER keeps the two times of a certificate to the second: what is parsed back is the
  template's time without its nanoseconds.
\<close>

definition toSeconds :: "Time \<Rightarrow> Time" where
  "toSeconds t = (t div Second) * Second"

definition x509_CreateCertificate :: "host \<Rightarrow> Certificate \<Rightarrow> world \<Rightarrow> error + der" where
  "x509_CreateCertificate h template w =
     (if fails h CallCreateCertificate w then Inl (Failed CallCreateCertificate)
      else Inr (X509 (template\<lparr>NotBefore := toSeconds (NotBefore template),
                                NotAfter := toSeconds (NotAfter template)\<rparr>)))"

definition x509_ParseCertificate :: "der \<Rightarrow> error + Certificate" where
  "x509_ParseCertificate bytes =
     (case bytes of X509 c \<Rightarrow> Inr c | _ \<Rightarrow> Inl (Failed CallParseCertificate))"

section \<open>The single-domain manager (internal/cert/manager.go)\<close>

type_synonym ChallengeType = int

abbreviation ChallengeWebroot :: ChallengeType where "ChallengeWebroot \<equiv> 0"
abbreviation ChallengeStandalone :: ChallengeType where "ChallengeStandalone \<equiv> 1"
abbreviation ChallengeDNS :: ChallengeType where "ChallengeDNS \<equiv> 2"

type_synonym WebServerType = int

abbreviation WebServerNginx :: WebServerType where "WebServerNginx \<equiv> 0"
abbreviation WebServerApache :: WebServerType where "WebServerApache \<equiv> 1"
abbreviation WebServerIIS :: WebServerType where "WebServerIIS \<equiv> 2"

record Manager =
  domain :: string
  email :: string
  challengeType :: ChallengeType
  webrootPath :: string
  webServerType :: WebServerType
  certDir :: string
  keySize :: int

record CertInfo =
  Domain :: string
  CertPath :: path
  KeyPath :: path
  ChainPath :: path
  ExpiryDate :: Time
  IsValid :: bool

text \<open>
  \<^verbatim>\<open>NewManager\<close>; the certificate root that \<^verbatim>\<open>config.GetCertDir()\<close> returns is a
  parameter. The fields the source does not set have Go's zero value.
\<close>

definition NewManager :: "string \<Rightarrow> string \<Rightarrow> string \<Rightarrow> Manager" where
  "NewManager certRoot d e =
     \<lparr>domain = d, email = e, challengeType = ChallengeWebroot, webrootPath = [],
      webServerType = 0, certDir = certRoot, keySize = 2048\<rparr>"

definition SetChallengeType :: "Manager \<Rightarrow> ChallengeType \<Rightarrow> Manager" where
  "SetChallengeType m ct = m\<lparr>challengeType := ct\<rparr>"

definition SetWebrootPath :: "Manager \<Rightarrow> string \<Rightarrow> Manager" where
  "SetWebrootPath m p = m\<lparr>webrootPath := p\<rparr>"

definition SetWebServer :: "Manager \<Rightarrow> WebServerType \<Rightarrow> Manager" where
  "SetWebServer m t = m\<lparr>webServerType := t\<rparr>"

definition getCertPath :: "Manager \<Rightarrow> path" where
  "getCertPath m = filepath_Join [certDir m, domain m, ''cert.pem'']"

definition getKeyPath :: "Manager \<Rightarrow> path" where
  "getKeyPath m = filepath_Join [certDir m, domain m, ''key.pem'']"

definition getChainPath :: "Manager \<Rightarrow> path" where
  "getChainPath m = filepath_Join [certDir m, domain m, ''chain.pem'']"

definition createCertDir :: "host \<Rightarrow> Manager \<Rightarrow> world \<Rightarrow> error option \<times> world" where
  "createCertDir h m w = os_MkdirAll h (filepath_Join [certDir m, domain m]) w"

definition generatePrivateKey :: "host \<Rightarrow> Manager \<Rightarrow> world \<Rightarrow> (error + PrivateKey) \<times> world" where
  "generatePrivateKey h m w =
     (case rsa_GenerateKey h (keySize m) w of
        (Inl e, w1) \<Rightarrow> (Inl e, w1)
      | (Inr privateKey, w1) \<Rightarrow>
          (case os_Create h (getKeyPath m) w1 of
             (Some e, w2) \<Rightarrow> (Inl e, w2)
           | (None, w2) \<Rightarrow>
               (case pem_Encode h (getKeyPath m) ''RSA PRIVATE KEY'' (PKCS1 privateKey) w2 of
                  (Some e, w3) \<Rightarrow> (Inl e, w3)
                | (None, w3) \<Rightarrow>
                    (case os_Chmod h (getKeyPath m) w3 of
                       (Some e, w4) \<Rightarrow> (Inl e, w4)
                     | (None, w4) \<Rightarrow> (Inr privateKey, w4)))))"

definition createCSR :: "host \<Rightarrow> Manager \<Rightarrow> PrivateKey \<Rightarrow> world \<Rightarrow> error + der" where
  "createCSR h m privateKey w =
     x509_CreateCertificateRequest h
       \<lparr>reqSubject = domain m, reqDNSNames = [domain m]\<rparr> privateKey w"

text \<open>The stand-in for the certificate authority: a certificate valid for 90 days.\<close>

definition generateSelfSignedCert :: "host \<Rightarrow> der \<Rightarrow> world \<Rightarrow> (error + der) \<times> world" where
  "generateSelfSignedCert h csr w =
     (case x509_ParseCertificateRequest csr of
        Inl e \<Rightarrow> (Inl e, w)
      | Inr csrParsed \<Rightarrow>
          (case time_Now h w of
             (now1, w1) \<Rightarrow>
               (case time_Now h w1 of
                  (now2, w2) \<Rightarrow>
                    (let template = \<lparr>Subject = reqSubject csrParsed,
                                     DNSNames = reqDNSNames csrParsed,
                                     NotBefore = now1,
                                     NotAfter = now2 + 90 * 24 * Hour\<rparr>
                     in case rsa_GenerateKey h 2048 w2 of
                          (Inl e, w3) \<Rightarrow> (Inl e, w3)
                        | (Inr privateKey, w3) \<Rightarrow> (x509_CreateCertificate h template w3, w3)))))"

definition obtainCertificateWebroot :: "host \<Rightarrow> Manager \<Rightarrow> der \<Rightarrow> world \<Rightarrow> (error + der) \<times> world" where
  "obtainCertificateWebroot h m csr w = generateSelfSignedCert h csr w"

definition obtainCertificateStandalone :: "host \<Rightarrow> Manager \<Rightarrow> der \<Rightarrow> world \<Rightarrow> (error + der) \<times> world" where
  "obtainCertificateStandalone h m csr w = generateSelfSignedCert h csr w"

definition obtainCertificateDNS :: "host \<Rightarrow> Manager \<Rightarrow> der \<Rightarrow> world \<Rightarrow> (error + der) \<times> world" where
  "obtainCertificateDNS h m csr w = generateSelfSignedCert h csr w"

definition obtainCertificate :: "host \<Rightarrow> Manager \<Rightarrow> der \<Rightarrow> world \<Rightarrow> (error + der) \<times> world" where
  "obtainCertificate h m csr w =
     (if challengeType m = ChallengeWebroot then obtainCertificateWebroot h m csr w
      else if challengeType m = ChallengeStandalone then obtainCertificateStandalone h m csr w
      else if challengeType m = ChallengeDNS then obtainCertificateDNS h m csr w
      else (Inl (UnsupportedChallenge (challengeType m)), w))"

definition saveCertificate :: "host \<Rightarrow> Manager \<Rightarrow> der \<Rightarrow> world \<Rightarrow> error option \<times> world" where
  "saveCertificate h m certBytes w =
     (case os_Create h (getCertPath m) w of
        (Some e, w1) \<Rightarrow> (Some e, w1)
      | (None, w1) \<Rightarrow> pem_Encode h (getCertPath m) ''CERTIFICATE'' certBytes w1)"

text \<open>The three configurators of the manager only log, and return no error.\<close>

definition configureNginx :: "Manager \<Rightarrow> error option" where
  "configureNginx m = None"

definition configureApache :: "Manager \<Rightarrow> error option" where
  "configureApache m = None"

definition configureIIS :: "Manager \<Rightarrow> error option" where
  "configureIIS m = None"

definition configureWebServer :: "Manager \<Rightarrow> error option" where
  "configureWebServer m =
     (if webServerType m = WebServerNginx then configureNginx m
      else if webServerType m = WebServerApache then configureApache m
      else if webServerType m = WebServerIIS then configureIIS m
      else Some UnsupportedWebServer)"

definition Install :: "host \<Rightarrow> Manager \<Rightarrow> world \<Rightarrow> error option \<times> world" where
  "Install h m w =
     (case createCertDir h m w of
        (Some e, w1) \<Rightarrow> (Some (CreateCertDirFailed e), w1)
      | (None, w1) \<Rightarrow>
     (case generatePrivateKey h m w1 of
        (Inl e, w2) \<Rightarrow> (Some (GenerateKeyFailed e), w2)
      | (Inr privateKey, w2) \<Rightarrow>
     (case createCSR h m privateKey w2 of
        Inl e \<Rightarrow> (Some (CreateCSRFailed e), w2)
      | Inr csr \<Rightarrow>
     (case obtainCertificate h m csr w2 of
        (Inl e, w3) \<Rightarrow> (Some (ObtainCertificateFailed e), w3)
      | (Inr cert, w3) \<Rightarrow>
     (case saveCertificate h m cert w3 of
        (Some e, w4) \<Rightarrow> (Some (SaveCertificateFailed e), w4)
      | (None, w4) \<Rightarrow>
     (case configureWebServer m of
        Some e \<Rightarrow> (Some (ConfigureWebServerFailed e), w4)
      | None \<Rightarrow> (None, w4)))))))"

definition GetCertInfo :: "host \<Rightarrow> Manager \<Rightarrow> world \<Rightarrow> (error + CertInfo) \<times> world" where
  "GetCertInfo h m w =
     (if os_IsNotExist (os_Stat h (getCertPath m) w)
      then (Inl (CertificateNotFound (getCertPath m)), w)
      else
     (case os_ReadFile h (getCertPath m) w of
        Inl e \<Rightarrow> (Inl (ReadCertificateFailed e), w)
      | Inr certData \<Rightarrow>
     (case pem_Decode certData of
        None \<Rightarrow> (Inl CertificateUnreadable, w)
      | Some (ty, bytes) \<Rightarrow>
     (case x509_ParseCertificate bytes of
        Inl e \<Rightarrow> (Inl (CertificateParseError e), w)
      | Inr cert \<Rightarrow>
     (case time_Now h w of
        (now, w1) \<Rightarrow>
          (Inr \<lparr>Domain = domain m, CertPath = getCertPath m, KeyPath = getKeyPath m,
                ChainPath = getChainPath m, ExpiryDate = NotAfter cert,
                IsValid = Before now (NotAfter cert)\<rparr>, w1))))))"

definition Renew :: "host \<Rightarrow> Manager \<Rightarrow> world \<Rightarrow> error option \<times> world" where
  "Renew h m w =
     (case GetCertInfo h m w of
        (Inl e, w1) \<Rightarrow> (Some (GetCertInfoFailed e), w1)
      | (Inr certInfo, w1) \<Rightarrow>
          (case time_Until h (ExpiryDate certInfo) w1 of
             (left, w2) \<Rightarrow> if left > 30 * 24 * Hour then (None, w2) else Install h m w2))"

section \<open>The multi-domain manager (internal/cert/multidomainmanager.go)\<close>

record MultiDomainManager =
  domains :: "string list"
  primaryDomain :: string
  md_email :: string
  md_challengeType :: ChallengeType
  md_webrootPath :: string
  md_webServerType :: WebServerType
  md_certDir :: string
  md_keySize :: int

text \<open>\<^verbatim>\<open>NewMultiDomainManager\<close> returns nil for no domains.\<close>

definition NewMultiDomainManager :: "string \<Rightarrow> string list \<Rightarrow> string \<Rightarrow> MultiDomainManager option" where
  "NewMultiDomainManager certRoot ds e =
     (case ds of
        [] \<Rightarrow> None
      | d0 # _ \<Rightarrow>
          Some \<lparr>domains = ds, primaryDomain = d0, md_email = e,
                md_challengeType = ChallengeWebroot, md_webrootPath = [],
                md_webServerType = 0, md_certDir = certRoot, md_keySize = 2048\<rparr>)"

definition md_SetChallengeType :: "MultiDomainManager \<Rightarrow> ChallengeType \<Rightarrow> MultiDomainManager" where
  "md_SetChallengeType m ct = m\<lparr>md_challengeType := ct\<rparr>"

definition md_SetWebrootPath :: "MultiDomainManager \<Rightarrow> string \<Rightarrow> MultiDomainManager" where
  "md_SetWebrootPath m p = m\<lparr>md_webrootPath := p\<rparr>"

definition md_SetWebServer :: "MultiDomainManager \<Rightarrow> WebServerType \<Rightarrow> MultiDomainManager" where
  "md_SetWebServer m t = m\<lparr>md_webServerType := t\<rparr>"

definition hasWildcardDomain :: "MultiDomainManager \<Rightarrow> bool" where
  "hasWildcardDomain m = list_ex (\<lambda>d. HasPrefix d ''*.'') (domains m)"

text \<open>The directory name, which the source computes anew in each of the next five functions.\<close>

definition md_createCertDir :: "host \<Rightarrow> MultiDomainManager \<Rightarrow> world \<Rightarrow> error option \<times> world" where
  "md_createCertDir h m w =
     (let dirName = (if length (domains m) > 1 then primaryDomain m @ ''_san'' else primaryDomain m)
      in os_MkdirAll h (filepath_Join [md_certDir m, dirName]) w)"

definition md_getCertPath :: "MultiDomainManager \<Rightarrow> path" where
  "md_getCertPath m =
     (let dirName = (if length (domains m) > 1 then primaryDomain m @ ''_san'' else primaryDomain m)
      in filepath_Join [md_certDir m, dirName, ''cert.pem''])"

definition md_getKeyPath :: "MultiDomainManager \<Rightarrow> path" where
  "md_getKeyPath m =
     (let dirName = (if length (domains m) > 1 then primaryDomain m @ ''_san'' else primaryDomain m)
      in filepath_Join [md_certDir m, dirName, ''key.pem''])"

definition md_getChainPath :: "MultiDomainManager \<Rightarrow> path" where
  "md_getChainPath m =
     (let dirName = (if length (domains m) > 1 then primaryDomain m @ ''_san'' else primaryDomain m)
      in filepath_Join [md_certDir m, dirName, ''chain.pem''])"

definition getDomainsListPath :: "MultiDomainManager \<Rightarrow> path" where
  "getDomainsListPath m =
     (let dirName = (if length (domains m) > 1 then primaryDomain m @ ''_san'' else primaryDomain m)
      in filepath_Join [md_certDir m, dirName, ''domains.txt''])"

definition md_generatePrivateKey ::
    "host \<Rightarrow> MultiDomainManager \<Rightarrow> world \<Rightarrow> (error + PrivateKey) \<times> world" where
  "md_generatePrivateKey h m w =
     (case rsa_GenerateKey h (md_keySize m) w of
        (Inl e, w1) \<Rightarrow> (Inl e, w1)
      | (Inr privateKey, w1) \<Rightarrow>
          (case os_Create h (md_getKeyPath m) w1 of
             (Some e, w2) \<Rightarrow> (Inl e, w2)
           | (None, w2) \<Rightarrow>
               (case pem_Encode h (md_getKeyPath m) ''RSA PRIVATE KEY'' (PKCS1 privateKey) w2 of
                  (Some e, w3) \<Rightarrow> (Inl e, w3)
                | (None, w3) \<Rightarrow>
                    (case os_Chmod h (md_getKeyPath m) w3 of
                       (Some e, w4) \<Rightarrow> (Inl e, w4)
                     | (None, w4) \<Rightarrow> (Inr privateKey, w4)))))"

definition createMultiDomainCSR :: "host \<Rightarrow> MultiDomainManager \<Rightarrow> PrivateKey \<Rightarrow> world \<Rightarrow> error + der" where
  "createMultiDomainCSR h m privateKey w =
     x509_CreateCertificateRequest h
       \<lparr>reqSubject = primaryDomain m, reqDNSNames = domains m\<rparr> privateKey w"

definition generateMultiDomainSelfSignedCert :: "host \<Rightarrow> der \<Rightarrow> world \<Rightarrow> (error + der) \<times> world" where
  "generateMultiDomainSelfSignedCert h csr w =
     (case x509_ParseCertificateRequest csr of
        Inl e \<Rightarrow> (Inl e, w)
      | Inr csrParsed \<Rightarrow>
          (case time_Now h w of
             (now1, w1) \<Rightarrow>
               (case time_Now h w1 of
                  (now2, w2) \<Rightarrow>
                    (let template = \<lparr>Subject = reqSubject csrParsed,
                                     DNSNames = reqDNSNames csrParsed,
                                     NotBefore = now1,
                                     NotAfter = now2 + 90 * 24 * Hour\<rparr>
                     in case rsa_GenerateKey h 2048 w2 of
                          (Inl e, w3) \<Rightarrow> (Inl e, w3)
                        | (Inr privateKey, w3) \<Rightarrow> (x509_CreateCertificate h template w3, w3)))))"

definition md_obtainCertificateWebroot ::
    "host \<Rightarrow> MultiDomainManager \<Rightarrow> der \<Rightarrow> world \<Rightarrow> (error + der) \<times> world" where
  "md_obtainCertificateWebroot h m csr w =
     (if hasWildcardDomain m then (Inl WildcardNotWebroot, w)
      else generateMultiDomainSelfSignedCert h csr w)"

definition md_obtainCertificateStandalone ::
    "host \<Rightarrow> MultiDomainManager \<Rightarrow> der \<Rightarrow> world \<Rightarrow> (error + der) \<times> world" where
  "md_obtainCertificateStandalone h m csr w =
     (if hasWildcardDomain m then (Inl WildcardNotStandalone, w)
      else generateMultiDomainSelfSignedCert h csr w)"

definition md_obtainCertificateDNS ::
    "host \<Rightarrow> MultiDomainManager \<Rightarrow> der \<Rightarrow> world \<Rightarrow> (error + der) \<times> world" where
  "md_obtainCertificateDNS h m csr w = generateMultiDomainSelfSignedCert h csr w"

definition md_obtainCertificate ::
    "host \<Rightarrow> MultiDomainManager \<Rightarrow> der \<Rightarrow> world \<Rightarrow> (error + der) \<times> world" where
  "md_obtainCertificate h m csr w =
     (if md_challengeType m = ChallengeWebroot then md_obtainCertificateWebroot h m csr w
      else if md_challengeType m = ChallengeStandalone then md_obtainCertificateStandalone h m csr w
      else if md_challengeType m = ChallengeDNS then md_obtainCertificateDNS h m csr w
      else (Inl (UnsupportedChallenge (md_challengeType m)), w))"

text \<open>
  The certificate is saved, then the list of the domains; an error of the second
  write is logged as a warning and not returned.
\<close>

definition md_saveCertificate :: "host \<Rightarrow> MultiDomainManager \<Rightarrow> der \<Rightarrow> world \<Rightarrow> error option \<times> world" where
  "md_saveCertificate h m certBytes w =
     (case os_Create h (md_getCertPath m) w of
        (Some e, w1) \<Rightarrow> (Some e, w1)
      | (None, w1) \<Rightarrow>
          (case pem_Encode h (md_getCertPath m) ''CERTIFICATE'' certBytes w1 of
             (Some e, w2) \<Rightarrow> (Some e, w2)
           | (None, w2) \<Rightarrow>
               (case os_WriteFile h (getDomainsListPath m) (Join (domains m) [CHR 0x0A]) w2 of
                  (Some e, w3) \<Rightarrow> (None, w3)
                | (None, w3) \<Rightarrow> (None, w3))))"

definition md_configureNginx :: "MultiDomainManager \<Rightarrow> error option" where
  "md_configureNginx m = None"

definition md_configureApache :: "MultiDomainManager \<Rightarrow> error option" where
  "md_configureApache m = None"

definition md_configureIIS :: "MultiDomainManager \<Rightarrow> error option" where
  "md_configureIIS m = None"

definition configureWebServers :: "MultiDomainManager \<Rightarrow> error option" where
  "configureWebServers m =
     (if md_webServerType m = WebServerNginx then md_configureNginx m
      else if md_webServerType m = WebServerApache then md_configureApache m
      else if md_webServerType m = WebServerIIS then md_configureIIS m
      else Some UnsupportedWebServer)"

definition md_Install :: "host \<Rightarrow> MultiDomainManager \<Rightarrow> world \<Rightarrow> error option \<times> world" where
  "md_Install h m w =
     (if hasWildcardDomain m \<and> md_challengeType m \<noteq> ChallengeDNS
      then (Some WildcardChallengeMismatch, w)
      else
     (case md_createCertDir h m w of
        (Some e, w1) \<Rightarrow> (Some (CreateCertDirFailed e), w1)
      | (None, w1) \<Rightarrow>
     (case md_generatePrivateKey h m w1 of
        (Inl e, w2) \<Rightarrow> (Some (GenerateKeyFailed e), w2)
      | (Inr privateKey, w2) \<Rightarrow>
     (case createMultiDomainCSR h m privateKey w2 of
        Inl e \<Rightarrow> (Some (CreateMultiCSRFailed e), w2)
      | Inr csr \<Rightarrow>
     (case md_obtainCertificate h m csr w2 of
        (Inl e, w3) \<Rightarrow> (Some (ObtainCertificateFailed e), w3)
      | (Inr cert, w3) \<Rightarrow>
     (case md_saveCertificate h m cert w3 of
        (Some e, w4) \<Rightarrow> (Some (SaveCertificateFailed e), w4)
      | (None, w4) \<Rightarrow>
     (case configureWebServers m of
        Some e \<Rightarrow> (Some (ConfigureWebServerFailed e), w4)
      | None \<Rightarrow> (None, w4))))))))"

section \<open>The Nginx configurator (internal/webserver)\<close>

text \<open>
  The loop of \<^verbatim>\<open>checkSSLInConfig\<close> over the lines that the scanner delivers, with
  the three variables of the loop as arguments.
\<close>

fun scanConfig :: "string \<Rightarrow> bool \<Rightarrow> bool \<Rightarrow> bool \<Rightarrow> string list \<Rightarrow> bool" where
  "scanConfig d inServerBlock hasSSL hasDomain [] = False"
| "scanConfig d inServerBlock hasSSL hasDomain (text # rest) =
     (let line = TrimSpace text
      in if Contains line ''server {'' then scanConfig d True False False rest
         else if Contains line ''}'' \<and> inServerBlock then
           (if hasSSL \<and> hasDomain then True else scanConfig d False hasSSL hasDomain rest)
         else if inServerBlock then
           scanConfig d inServerBlock
             (if Contains line ''ssl_certificate'' then True else hasSSL)
             (if Contains line ''server_name'' \<and> Contains line d then True else hasDomain) rest
         else scanConfig d inServerBlock hasSSL hasDomain rest)"

text \<open>
  A configuration file is given by what \<^verbatim>\<open>bufio.Scanner\<close> makes of it: its lines in
  order, or nothing when \<^verbatim>\<open>os.Open\<close> fails.
\<close>

definition checkSSLInConfig :: "string list option \<Rightarrow> string \<Rightarrow> bool" where
  "checkSSLInConfig configFile d =
     (case configFile of None \<Rightarrow> False | Some ls \<Rightarrow> scanConfig d False False False ls)"

text \<open>\<^verbatim>\<open>IsSSLEnabled\<close> over the files that \<^verbatim>\<open>findSiteConfigs\<close> has found.\<close>

fun IsSSLEnabled :: "string list option list \<Rightarrow> string \<Rightarrow> bool" where
  "IsSSLEnabled [] d = False"
| "IsSSLEnabled (configFile # configFiles) d =
     (if checkSSLInConfig configFile d then True else IsSSLEnabled configFiles d)"

text \<open>
  The blocks as the specification describes the tracker: a block is entered on a line
  that contains \<^verbatim>\<open>server {\<close> and left on a line with a closing brace; its body is the
  lines between the two.
\<close>

definition opens :: "string \<Rightarrow> bool" where
  "opens text = Contains (TrimSpace text) ''server {''"

definition closes :: "string \<Rightarrow> bool" where
  "closes text = (\<not> opens text \<and> Contains (TrimSpace text) ''}'')"

definition inside :: "string \<Rightarrow> bool" where
  "inside text = (\<not> opens text \<and> \<not> closes text)"

definition sslLine :: "string \<Rightarrow> bool" where
  "sslLine text = Contains (TrimSpace text) ''ssl_certificate''"

definition nameLine :: "string \<Rightarrow> string \<Rightarrow> bool" where
  "nameLine d text = (Contains (TrimSpace text) ''server_name'' \<and> Contains (TrimSpace text) d)"

definition leftByBrace :: "string list \<Rightarrow> bool" where
  "leftByBrace rest = (case dropWhile inside rest of [] \<Rightarrow> False | text # _ \<Rightarrow> closes text)"

fun trackedBlocks :: "string list \<Rightarrow> string list list" where
  "trackedBlocks [] = []"
| "trackedBlocks (text # rest) =
     (if opens text \<and> leftByBrace rest then takeWhile inside rest # trackedBlocks rest
      else trackedBlocks rest)"

definition blockHasBoth :: "string \<Rightarrow> string list \<Rightarrow> bool" where
  "blockHasBoth d body = (list_ex sslLine body \<and> list_ex (nameLine d) body)"

section \<open>The install command (cmd/install.go)\<close>

text \<open>The flag variables of the command.\<close>

record flags =
  domain_flag :: string
  domains_flag :: string
  email_flag :: string
  webroot :: string
  standalone :: bool
  dnsChallenge :: bool
  nginx :: bool
  apache :: bool
  iis :: bool

text \<open>
  The errors of the command. The source builds them with \<^verbatim>\<open>fmt.Errorf\<close> from a
  message; each message has a constructor here.
\<close>

datatype cmd_error =
    DomainEmpty
  | WildcardFormatInvalid
  | WildcardNotOnlyAtStart
  | DomainContainsSpace
  | DomainFormatInvalid string cmd_error
  | NoDomainGiven
  | NoWebServerGiven
  | SeveralWebServersGiven
  | WildcardRequiresDNS
  | InvalidChallengeConfiguration
  | ParseDomainsFailed cmd_error
  | ValidateFlagsFailed cmd_error
  | SingleInstallFailed string error
  | NewMultiDomainManagerFailed
  | MultiInstallFailed error

definition validateDomainName :: "string \<Rightarrow> cmd_error option" where
  "validateDomainName d =
     (if length d = 0 then Some DomainEmpty
      else if HasPrefix d ''*.'' \<and> length d < 4 then Some WildcardFormatInvalid
      else if HasPrefix d ''*.'' \<and> Contains (drop 2 d) ''*'' then Some WildcardNotOnlyAtStart
      else if Contains d '' '' then Some DomainContainsSpace
      else None)"

text \<open>The loop of \<^verbatim>\<open>parseDomains\<close> that checks every entry, first error first.\<close>

fun checkDomains :: "string list \<Rightarrow> cmd_error option" where
  "checkDomains [] = None"
| "checkDomains (d # ds) =
     (if d = [] then Some DomainEmpty
      else (case validateDomainName d of
              Some e \<Rightarrow> Some (DomainFormatInvalid d e)
            | None \<Rightarrow> checkDomains ds))"

definition parseDomains :: "flags \<Rightarrow> cmd_error + string list" where
  "parseDomains f =
     (if domains_flag f \<noteq> [] then
        (let domainList = map TrimSpace (Split (domains_flag f) CHR '','')
         in case checkDomains domainList of Some e \<Rightarrow> Inl e | None \<Rightarrow> Inr domainList)
      else if domain_flag f \<noteq> [] then
        (let domainList = [TrimSpace (domain_flag f)]
         in case checkDomains domainList of Some e \<Rightarrow> Inl e | None \<Rightarrow> Inr domainList)
      else Inl NoDomainGiven)"

definition hasWildcard :: "string list \<Rightarrow> bool" where
  "hasWildcard ds = list_ex (\<lambda>d. HasPrefix d ''*.'') ds"

definition challengeCount :: "flags \<Rightarrow> nat" where
  "challengeCount f =
     (if standalone f then 1 else 0) + (if webroot f \<noteq> [] then 1 else 0)
       + (if dnsChallenge f then 1 else 0)"

definition serverCount :: "flags \<Rightarrow> nat" where
  "serverCount f =
     (if nginx f then 1 else 0) + (if apache f then 1 else 0) + (if iis f then 1 else 0)"

definition validateInstallFlags :: "flags \<Rightarrow> string list \<Rightarrow> cmd_error option" where
  "validateInstallFlags f domainList =
     (if \<not> nginx f \<and> \<not> apache f \<and> \<not> iis f then Some NoWebServerGiven
      else if serverCount f > 1 then Some SeveralWebServersGiven
      else if hasWildcard domainList \<and> \<not> dnsChallenge f then Some WildcardRequiresDNS
      else if challengeCount f > 1 then Some InvalidChallengeConfiguration
      else None)"

text \<open>
  \<^verbatim>\<open>installSingleDomain\<close> up to its call of \<^verbatim>\<open>Install\<close>: the manager with the
  challenge type and the web server set from the flags.
\<close>

definition singleManager :: "string \<Rightarrow> flags \<Rightarrow> string \<Rightarrow> Manager" where
  "singleManager certRoot f d =
     (let certManager = NewManager certRoot d (email_flag f);
          certManager =
            (if dnsChallenge f \<or> HasPrefix d ''*.'' then SetChallengeType certManager ChallengeDNS
             else if standalone f then SetChallengeType certManager ChallengeStandalone
             else if webroot f \<noteq> [] then
               SetWebrootPath (SetChallengeType certManager ChallengeWebroot) (webroot f)
             else SetChallengeType certManager ChallengeWebroot)
      in if nginx f then SetWebServer certManager WebServerNginx
         else if apache f then SetWebServer certManager WebServerApache
         else if iis f then SetWebServer certManager WebServerIIS
         else certManager)"

definition installSingleDomain ::
    "host \<Rightarrow> string \<Rightarrow> flags \<Rightarrow> string \<Rightarrow> world \<Rightarrow> cmd_error option \<times> world" where
  "installSingleDomain h certRoot f d w =
     (case Install h (singleManager certRoot f d) w of
        (Some e, w') \<Rightarrow> (Some (SingleInstallFailed d e), w')
      | (None, w') \<Rightarrow> (None, w'))"

text \<open>\<^verbatim>\<open>installMultiDomain\<close> up to its call of \<^verbatim>\<open>Install\<close>, from a manager that is not nil.\<close>

definition multiManager :: "flags \<Rightarrow> string list \<Rightarrow> MultiDomainManager \<Rightarrow> MultiDomainManager" where
  "multiManager f ds multiManager0 =
     (let multiManager1 =
            (if dnsChallenge f \<or> hasWildcard ds then md_SetChallengeType multiManager0 ChallengeDNS
             else if standalone f then md_SetChallengeType multiManager0 ChallengeStandalone
             else if webroot f \<noteq> [] then
               md_SetWebrootPath (md_SetChallengeType multiManager0 ChallengeWebroot) (webroot f)
             else md_SetChallengeType multiManager0 ChallengeWebroot)
      in if nginx f then md_SetWebServer multiManager1 WebServerNginx
         else if apache f then md_SetWebServer multiManager1 WebServerApache
         else if iis f then md_SetWebServer multiManager1 WebServerIIS
         else multiManager1)"

definition installMultiDomain ::
    "host \<Rightarrow> string \<Rightarrow> flags \<Rightarrow> string list \<Rightarrow> world \<Rightarrow> cmd_error option \<times> world" where
  "installMultiDomain h certRoot f ds w =
     (case NewMultiDomainManager certRoot ds (email_flag f) of
        None \<Rightarrow> (Some NewMultiDomainManagerFailed, w)
      | Some multiManager0 \<Rightarrow>
          (case md_Install h (multiManager f ds multiManager0) w of
             (Some e, w') \<Rightarrow> (Some (MultiInstallFailed e), w')
           | (None, w') \<Rightarrow> (None, w')))"

definition runInstall :: "host \<Rightarrow> string \<Rightarrow> flags \<Rightarrow> world \<Rightarrow> cmd_error option \<times> world" where
  "runInstall h certRoot f w =
     (case parseDomains f of
        Inl e \<Rightarrow> (Some (ParseDomainsFailed e), w)
      | Inr domainList \<Rightarrow>
          (case validateInstallFlags f domainList of
             Some e \<Rightarrow> (Some (ValidateFlagsFailed e), w)
           | None \<Rightarrow>
               if length domainList = 1 then installSingleDomain h certRoot f (hd domainList) w
               else installMultiDomain h certRoot f domainList w))"

text \<open>
  The challenge type that the install command gives to its manager, or the error of
  the validation of the flags that comes before.
\<close>

definition selectChallenge :: "string \<Rightarrow> flags \<Rightarrow> string list \<Rightarrow> cmd_error + ChallengeType" where
  "selectChallenge certRoot f domainList =
     (case validateInstallFlags f domainList of
        Some e \<Rightarrow> Inl e
      | None \<Rightarrow>
          if length domainList = 1 then Inr (challengeType (singleManager certRoot f (hd domainList)))
          else (case NewMultiDomainManager certRoot domainList (email_flag f) of
                  None \<Rightarrow> Inl NewMultiDomainManagerFailed
                | Some multiManager0 \<Rightarrow>
                    Inr (md_challengeType (multiManager f domainList multiManager0))))"

section \<open>Notions for the statements and the proofs about paths\<close>

text \<open>A plain element of a path: a name that is not empty, no dot, not two dots, and has no slash.\<close>

definition plain :: "string \<Rightarrow> bool" where
  "plain e = (e \<noteq> [] \<and> e \<noteq> ''.'' \<and> e \<noteq> ''..'' \<and> CHR ''/'' \<notin> set e)"

text \<open>
  The kept elements, the last one first, as cleaning leaves them: plain elements, below
  them nothing but two dots, and those in a path that is not rooted only.
\<close>

fun okStack :: "bool \<Rightarrow> string list \<Rightarrow> bool" where
  "okStack r [] = True"
| "okStack r (e # below) =
     (if e = ''..'' then \<not> r \<and> list_all (\<lambda>x. x = ''..'') below else plain e \<and> okStack r below)"

text \<open>The path that \<^verbatim>\<open>filepath.Clean\<close> returns for the elements it has kept.\<close>

definition render :: "bool \<Rightarrow> string list \<Rightarrow> string" where
  "render r E = (if r then CHR ''/'' # Join E ''/'' else if E = [] then ''.'' else Join E ''/'')"

text \<open>The file or directory with the given name inside the directory with the given clean path.\<close>

definition child :: "string \<Rightarrow> string \<Rightarrow> string" where
  "child d c =
     (if d = [] then c else if d = ''/'' then ''/'' @ c else if d = ''.'' then c
      else d @ ''/'' @ c)"

section \<open>Sample inputs\<close>

text \<open>A host whose calls never fail, an empty machine and the flags of a plain call.\<close>

definition host0 :: host where
  "host0 = \<lparr>clock = (\<lambda>n. 1700000000 * Second + int n), fails = (\<lambda>c w. False)\<rparr>"

definition world0 :: world where
  "world0 = \<lparr>files = Map.empty, dirs = {}, reads = 0, draws = 0\<rparr>"

definition flags0 :: flags where
  "flags0 = \<lparr>domain_flag = [], domains_flag = [], email_flag = ''admin@example.com'',
     webroot = [], standalone = False, dnsChallenge = False, nginx = True, apache = False,
     iis = False\<rparr>"

definition wildcardManager :: MultiDomainManager where
  "wildcardManager = \<lparr>domains = [''*.example.com''], primaryDomain = ''*.example.com'',
     md_email = ''admin@example.com'', md_challengeType = ChallengeWebroot, md_webrootPath = [],
     md_webServerType = WebServerNginx, md_certDir = ''/etc/autocert/certs'', md_keySize = 2048\<rparr>"

definition conflictingFlags :: flags where
  "conflictingFlags = flags0\<lparr>standalone := True, webroot := ''/var/www/html''\<rparr>"

definition noServerFlags :: flags where
  "noServerFlags = flags0\<lparr>nginx := False, standalone := True, webroot := ''/var/www/html''\<rparr>"

definition exampleManager :: Manager where
  "exampleManager = NewManager ''/etc/autocert/certs'' ''example.com'' ''admin@example.com''"

definition Day :: Duration where
  "Day = 24 * Hour"

definition exampleCert :: "Time \<Rightarrow> Time \<Rightarrow> Certificate" where
  "exampleCert notBefore notAfter =
     \<lparr>Subject = ''example.com'', DNSNames = [''example.com''], NotBefore = notBefore,
      NotAfter = notAfter\<rparr>"

text \<open>A machine that holds one file, at the path of the certificate of \<open>exampleManager\<close>.\<close>

definition storedWorld :: "content \<Rightarrow> world" where
  "storedWorld c = world0\<lparr>files := [''/etc/autocert/certs/example.com/cert.pem'' \<mapsto> c]\<rparr>"

text \<open>The stored certificate expires the given time after the second reading of the clock.\<close>

definition renewWorld :: "Duration \<Rightarrow> world" where
  "renewWorld left =
     storedWorld (PEM ''CERTIFICATE'' (X509 (exampleCert (1690000000 * Second) (clock host0 1 + left))))"

text \<open>A machine on which the directory of \<open>exampleManager\<close> is a regular file.\<close>

definition fileForDirWorld :: world where
  "fileForDirWorld =
     world0\<lparr>files := [''/etc/autocert/certs/example.com'' \<mapsto> Raw ''not a directory'']\<rparr>"

definition sanManager :: MultiDomainManager where
  "sanManager = \<lparr>domains = [''a.com'', ''b.com''], primaryDomain = ''a.com'',
     md_email = ''admin@a.com'', md_challengeType = ChallengeDNS, md_webrootPath = [],
     md_webServerType = WebServerNginx, md_certDir = ''/etc/autocert/certs'', md_keySize = 2048\<rparr>"

text \<open>A host on which only the write of the list of domains fails.\<close>

definition listFailsHost :: host where
  "listFailsHost =
     host0\<lparr>fails := (\<lambda>c w. c = CallWriteFile ''/etc/autocert/certs/a.com_san/domains.txt'')\<rparr>"

text \<open>A host on which exactly the given call fails.\<close>

definition stageHost :: "call \<Rightarrow> host" where
  "stageHost c = host0\<lparr>fails := (\<lambda>c' w. c' = c)\<rparr>"

definition badServerManager :: Manager where
  "badServerManager = SetWebServer exampleManager 7"

definition badServerSanManager :: MultiDomainManager where
  "badServerSanManager = md_SetWebServer sanManager 7"

text \<open>
  The name of the directory as the specification words it: the primary domain, with
  \<^verbatim>\<open>_san\<close> after it when the set has more than one domain.
\<close>

definition storeDirName :: "string list \<Rightarrow> string" where
  "storeDirName ds = (if length ds > 1 then ds ! 0 @ ''_san'' else ds ! 0)"

definition wildcardSanManager :: MultiDomainManager where
  "wildcardSanManager = \<lparr>domains = [''example.com'', ''*.example.com''],
     primaryDomain = ''example.com'', md_email = ''admin@example.com'',
     md_challengeType = ChallengeDNS, md_webrootPath = [],
     md_webServerType = WebServerNginx, md_certDir = ''/etc/autocert/certs'', md_keySize = 2048\<rparr>"

text \<open>
  Two configuration files: in the first the certificate and the name \<^verbatim>\<open>example.com\<close>
  are in two blocks, in the second in one.
\<close>

definition splitConfig :: "string list" where
  "splitConfig =
     [''server {'',
      ''    listen 443 ssl;'',
      ''    server_name other.example.org;'',
      ''    ssl_certificate /etc/autocert/certs/other.example.org/cert.pem;'',
      ''}'',
      ''server {'',
      ''    listen 80;'',
      ''    server_name example.com;'',
      ''}'']"

definition sslConfig :: "string list" where
  "sslConfig =
     [''server {'',
      ''    listen 443 ssl;'',
      ''    server_name example.com;'',
      ''    ssl_certificate /etc/autocert/certs/example.com/cert.pem;'',
      ''}'']"

text \<open>Some tracked block of the lines has both the certificate and the name.\<close>

definition anyBlock :: "string \<Rightarrow> string list \<Rightarrow> bool" where
  "anyBlock d ls = list_ex (blockHasBoth d) (trackedBlocks ls)"

section \<open>Strings\<close>

lemma Contains_single: "Contains s [c] = (c \<in> set s)"
  by (induction s) (auto simp: HasPrefix_def)

section \<open>Paths\<close>

lemma Split_ne [simp]: "Split p sep \<noteq> []"
  by (induction p) (auto split: list.splits)

lemma Split_app: "Split (u @ sep # v) sep = Split u sep @ Split v sep"
  by (induction u) (auto split: list.splits)

lemma Split_no_sep: "sep \<notin> set d \<Longrightarrow> Split d sep = [d]"
  by (induction d) auto

lemma Split_elems: "e \<in> set (Split p sep) \<Longrightarrow> sep \<notin> set e"
  by (induction p arbitrary: e) (auto split: if_splits list.splits)

lemma Split_append: "sep \<notin> set d \<Longrightarrow> Split (d @ sep # r) sep = d # Split r sep"
  by (simp add: Split_app Split_no_sep)

lemma Split_Join:
  "ds \<noteq> [] \<Longrightarrow> \<forall>d\<in>set ds. sep \<notin> set d \<Longrightarrow> Split (Join ds [sep]) sep = ds"
  by (induction ds "[sep]" rule: Join.induct) (auto simp: Split_no_sep Split_append)

lemma cleanElems_append:
  "cleanElems r out (xs @ ys) = cleanElems r (rev (cleanElems r out xs)) ys"
  by (induction xs arbitrary: out) (auto split: list.splits)

lemma okStack_dotdots: "\<not> r \<Longrightarrow> list_all (\<lambda>x. x = ''..'') xs \<Longrightarrow> okStack r xs"
  by (induction xs) auto

lemma okStack_suffix: "okStack r (xs @ ys) \<Longrightarrow> okStack r ys"
  by (induction xs) (auto split: if_splits intro: okStack_dotdots)

lemma okStack_elems: "okStack r xs \<Longrightarrow> e \<in> set xs \<Longrightarrow> e = ''..'' \<or> plain e"
  by (induction xs) (auto split: if_splits simp: list_all_iff)

lemma okStack_noslash: "okStack r xs \<Longrightarrow> e \<in> set xs \<Longrightarrow> e \<noteq> [] \<and> e \<noteq> ''.'' \<and> CHR ''/'' \<notin> set e"
  using okStack_elems [of r xs e] by (auto simp: plain_def)

lemma cleanElems_ok:
  "okStack r out \<Longrightarrow> \<forall>e\<in>set es. CHR ''/'' \<notin> set e \<Longrightarrow> okStack r (rev (cleanElems r out es))"
proof (induction es arbitrary: out)
  case Nil
  then show ?case by simp
next
  case (Cons e es)
  show ?case
  proof (cases "e = [] \<or> e = ''.''")
    case True
    with Cons show ?thesis by auto
  next
    case False
    show ?thesis
    proof (cases "e = ''..''")
      case True
      show ?thesis
      proof (cases out)
        case Nil
        with True Cons show ?thesis by auto
      next
        case (Cons lastElem below)
        with True Cons.prems Cons.IH [of "''..'' # out"] Cons.IH [of below]
        show ?thesis by (auto split: if_splits)
      qed
    next
      case n: False
      with False Cons.prems have "okStack r (e # out)" by (simp add: plain_def)
      with False n Cons.prems Cons.IH [of "e # out"] show ?thesis by simp
    qed
  qed
qed

lemma cleanElems_fix: "okStack r (rev es @ out) \<Longrightarrow> cleanElems r out es = rev out @ es"
proof (induction es arbitrary: out)
  case Nil
  then show ?case by simp
next
  case (Cons e es)
  from Cons.prems have all: "okStack r (rev es @ (e # out))" by simp
  then have top: "okStack r (e # out)" by (rule okStack_suffix)
  have "cleanElems r out (e # es) = cleanElems r (e # out) es"
  proof (cases "e = ''..''")
    case True
    with top show ?thesis by (cases out) (auto simp: plain_def)
  next
    case False
    with top show ?thesis by (auto simp: plain_def)
  qed
  with Cons.IH [OF all] show ?case by simp
qed

lemma cleanElems_idem:
  assumes "\<forall>e\<in>set es. CHR ''/'' \<notin> set e"
  shows "cleanElems r [] (cleanElems r [] es) = cleanElems r [] es"
proof -
  from cleanElems_ok [of r "[]" es] assms have "okStack r (rev (cleanElems r [] es))" by simp
  then show ?thesis using cleanElems_fix [of r "cleanElems r [] es" "[]"] by simp
qed

lemma Clean_render:
  "p \<noteq> [] \<Longrightarrow> Clean p = render (hd p = CHR ''/'') (cleanElems (hd p = CHR ''/'') [] (Split p (CHR ''/'')))"
  by (simp add: Clean_def render_def Let_def)

lemma Join_hd: "xs \<noteq> [] \<Longrightarrow> hd xs \<noteq> [] \<Longrightarrow> Join xs sep \<noteq> [] \<and> hd (Join xs sep) = hd (hd xs)"
  by (induction xs sep rule: Join.induct) auto

lemma Join_snoc: "xs \<noteq> [] \<Longrightarrow> Join (xs @ [c]) sep = Join xs sep @ sep @ c"
  by (induction xs sep rule: Join.induct) auto

lemma elems_ok:
  assumes "okStack r (rev E)" and "e \<in> set E"
  shows "e \<noteq> []" and "e \<noteq> ''.''" and "CHR ''/'' \<notin> set e"
  using okStack_noslash [OF assms(1), of e] assms(2) by auto

lemma render_props:
  assumes ok: "okStack r (rev E)"
  shows "render r E \<noteq> []"
    and "(hd (render r E) = CHR ''/'') = r"
    and "cleanElems r [] (Split (render r E) (CHR ''/'')) = E"
    and "(render r E = ''/'') = (r \<and> E = [])"
    and "(render r E = ''.'') = (\<not> r \<and> E = [])"
proof -
  note fixE = cleanElems_fix [of r E "[]", simplified, OF ok]
  have split: "E \<noteq> [] \<Longrightarrow> Split (Join E ''/'') (CHR ''/'') = E"
    using Split_Join [of E "CHR ''/''"] elems_ok(3) [OF ok] by blast
  have hdE: "E \<noteq> [] \<Longrightarrow> Join E ''/'' \<noteq> [] \<and> hd (Join E ''/'') = hd (hd E) \<and> hd E \<noteq> [] \<and> hd (hd E) \<noteq> CHR ''/''"
  proof -
    assume ne: "E \<noteq> []"
    then have m: "hd E \<in> set E" by simp
    from elems_ok(1,3) [OF ok m] have "hd E \<noteq> []" "CHR ''/'' \<notin> set (hd E)" by auto
    then have "hd (hd E) \<noteq> CHR ''/''" by (cases "hd E") auto
    with Join_hd [OF ne \<open>hd E \<noteq> []\<close>, of "''/''"] \<open>hd E \<noteq> []\<close> show ?thesis by simp
  qed
  show "render r E \<noteq> []"
    using hdE by (auto simp: render_def)
  show "(hd (render r E) = CHR ''/'') = r"
    using hdE by (auto simp: render_def)
  show "cleanElems r [] (Split (render r E) (CHR ''/'')) = E"
  proof (cases "E = []")
    case True
    then show ?thesis by (simp add: render_def)
  next
    case False
    note sp = split [OF False]
    show ?thesis
    proof (cases r)
      case True
      have "cleanElems r [] (Split (CHR ''/'' # Join E ''/'') (CHR ''/'')) = cleanElems r [] E"
        by (simp add: sp)
      with fixE True show ?thesis by (simp add: render_def)
    next
      case r: False
      with False have "render r E = Join E ''/''" by (simp add: render_def)
      with sp fixE show ?thesis by simp
    qed
  qed
  show "(render r E = ''/'') = (r \<and> E = [])"
    using hdE by (auto simp: render_def)
  show "(render r E = ''.'') = (\<not> r \<and> E = [])"
  proof (cases "E = []")
    case True
    then show ?thesis by (simp add: render_def)
  next
    case False
    have "Join E ''/'' \<noteq> ''.''"
    proof
      assume j: "Join E ''/'' = ''.''"
      with split [OF False] have "E = [''.'']" by simp
      with elems_ok(2) [OF ok, of "''.''"] show False by simp
    qed
    with False show ?thesis by (auto simp: render_def)
  qed
qed

lemma Clean_ok:
  assumes "p \<noteq> []"
  shows "okStack (hd p = CHR ''/'') (rev (cleanElems (hd p = CHR ''/'') [] (Split p (CHR ''/''))))"
  using cleanElems_ok [of "hd p = CHR ''/''" "[]" "Split p (CHR ''/'')"] Split_elems [of _ p "CHR ''/''"]
  by auto

lemma Clean_ne [simp]: "Clean p \<noteq> []"
  using render_props(1) [OF Clean_ok [of p]] by (cases "p = []") (auto simp: Clean_render, simp add: Clean_def)

lemma Clean_of:
  assumes "p \<noteq> []" and "(hd p = CHR ''/'') = r"
  shows "Clean p = render r (cleanElems r [] (Split p (CHR ''/'')))"
  using Clean_render [OF assms(1)] assms(2) by simp

lemma Clean_extend:
  assumes "x \<noteq> []"
  shows "Clean (Clean x @ CHR ''/'' # c) = Clean (x @ CHR ''/'' # c)"
proof -
  let ?r = "hd x = CHR ''/''"
  let ?E = "cleanElems ?r [] (Split x (CHR ''/''))"
  note rp = render_props [OF Clean_ok [OF assms]]
  have cx: "Clean x = render ?r ?E" by (rule Clean_render [OF assms])
  have S: "Clean x \<noteq> []" "(hd (Clean x) = CHR ''/'') = ?r"
    "cleanElems ?r [] (Split (Clean x) (CHR ''/'')) = ?E"
    using rp(1,2,3) unfolding cx by blast+
  have h1: "(hd (Clean x @ CHR ''/'' # c) = CHR ''/'') = ?r"
    using S(1,2) by (simp add: hd_append)
  have h2: "(hd (x @ CHR ''/'' # c) = CHR ''/'') = ?r"
    using assms by (simp add: hd_append)
  have e1: "cleanElems ?r [] (Split (Clean x @ CHR ''/'' # c) (CHR ''/''))
      = cleanElems ?r (rev ?E) (Split c (CHR ''/''))"
    unfolding Split_app cleanElems_append S(3) ..
  have e2: "cleanElems ?r [] (Split (x @ CHR ''/'' # c) (CHR ''/''))
      = cleanElems ?r (rev ?E) (Split c (CHR ''/''))"
    unfolding Split_app cleanElems_append ..
  have "Clean (Clean x @ CHR ''/'' # c) = render ?r (cleanElems ?r (rev ?E) (Split c (CHR ''/'')))"
    using Clean_of [OF _ h1] e1 by simp
  moreover have "Clean (x @ CHR ''/'' # c) = render ?r (cleanElems ?r (rev ?E) (Split c (CHR ''/'')))"
    using Clean_of [OF _ h2] e2 by simp
  ultimately show ?thesis by simp
qed

lemma Clean_idem: "Clean (Clean x) = Clean x"
proof (cases "x = []")
  case True
  then show ?thesis by (simp add: Clean_def)
next
  case False
  let ?r = "hd x = CHR ''/''"
  let ?E = "cleanElems ?r [] (Split x (CHR ''/''))"
  note rp = render_props [OF Clean_ok [OF False]]
  have cx: "Clean x = render ?r ?E" by (rule Clean_render [OF False])
  have "Clean (render ?r ?E) = render ?r (cleanElems ?r [] (Split (render ?r ?E) (CHR ''/'')))"
    using Clean_of [OF rp(1) rp(2)] .
  with rp(3) show ?thesis unfolding cx by simp
qed

lemma Join_parts_ne: "parts \<noteq> [] \<Longrightarrow> \<forall>e\<in>set parts. e \<noteq> [] \<Longrightarrow> Join parts sep \<noteq> []"
  using Join_hd [of parts sep] by (cases parts) auto

lemma filepath_Join_snoc_empty: "filepath_Join (xs @ [[]]) = filepath_Join xs"
  by (simp add: filepath_Join_def Let_def)

lemma filepath_Join_snoc:
  assumes "c \<noteq> []"
  shows "filepath_Join (xs @ [c]) =
     (if filter (\<lambda>e. e \<noteq> []) xs = [] then Clean c
      else Clean (Join (filter (\<lambda>e. e \<noteq> []) xs) ''/'' @ CHR ''/'' # c))"
  using assms by (simp add: filepath_Join_def Let_def Join_snoc)

lemma filepath_Join_nested: "filepath_Join (xs @ [c]) = filepath_Join [filepath_Join xs, c]"
proof (cases "filter (\<lambda>e. e \<noteq> []) xs = []")
  case True
  then show ?thesis by (simp add: filepath_Join_def Let_def)
next
  case False
  let ?x = "Join (filter (\<lambda>e. e \<noteq> []) xs) ''/''"
  have x: "?x \<noteq> []" using Join_parts_ne [OF False] by simp
  have d: "filepath_Join xs = Clean ?x" using False by (simp add: filepath_Join_def Let_def)
  show ?thesis
  proof (cases "c = []")
    case True
    have "filepath_Join [Clean ?x, []] = Clean (Clean ?x)" by (simp add: filepath_Join_def Let_def)
    with True d show ?thesis by (simp add: filepath_Join_snoc_empty Clean_idem)
  next
    case c: False
    have "filepath_Join [Clean ?x, c] = Clean (Clean ?x @ CHR ''/'' # c)"
      using c by (simp add: filepath_Join_def Let_def)
    with Clean_extend [OF x, of c] filepath_Join_snoc [OF c, of xs] False d show ?thesis
      by simp
  qed
qed

lemma render_snoc: "E \<noteq> [] \<Longrightarrow> render r (E @ [c]) = render r E @ ''/'' @ c"
  by (simp add: render_def Join_snoc)

lemma Clean_plain: "plain c \<Longrightarrow> Clean c = c"
proof -
  assume p: "plain c"
  then have "c \<noteq> []" "hd c \<noteq> CHR ''/''" "Split c (CHR ''/'') = [c]"
    by (auto simp: plain_def Split_no_sep) (cases c, auto)
  with p show ?thesis by (simp add: Clean_def plain_def)
qed

lemma filepath_Join_child:
  assumes p: "plain c"
  shows "filepath_Join (xs @ [c]) = child (filepath_Join xs) c"
proof (cases "filter (\<lambda>e. e \<noteq> []) xs = []")
  case True
  with p show ?thesis by (simp add: filepath_Join_def Let_def child_def Clean_plain)
next
  case False
  from p have c: "c \<noteq> []" "c \<noteq> ''.''" "c \<noteq> ''..''" "Split c (CHR ''/'') = [c]"
    by (auto simp: plain_def Split_no_sep)
  let ?x = "Join (filter (\<lambda>e. e \<noteq> []) xs) ''/''"
  let ?r = "hd ?x = CHR ''/''"
  let ?E = "cleanElems ?r [] (Split ?x (CHR ''/''))"
  have x: "?x \<noteq> []" using Join_parts_ne [OF False] by simp
  note rp = render_props [OF Clean_ok [OF x]]
  have d: "filepath_Join xs = render ?r ?E"
    using False Clean_render [OF x] by (simp add: filepath_Join_def Let_def)
  have h: "(hd (?x @ CHR ''/'' # c) = CHR ''/'') = ?r"
    using x by (simp add: hd_append)
  have "cleanElems ?r [] (Split (?x @ CHR ''/'' # c) (CHR ''/'')) = ?E @ [c]"
    unfolding Split_app cleanElems_append using c by simp
  with Clean_of [OF _ h] have l: "filepath_Join (xs @ [c]) = render ?r (?E @ [c])"
    using False c(1) by (simp add: filepath_Join_snoc)
  have "render ?r (?E @ [c]) = child (render ?r ?E) c"
  proof (cases "?E = []")
    case True
    then show ?thesis by (simp add: render_def child_def)
  next
    case e: False
    with rp(1,4,5) have "render ?r ?E \<noteq> []" "render ?r ?E \<noteq> ''/''" "render ?r ?E \<noteq> ''.''"
      by auto
    then have "child (render ?r ?E) c = render ?r ?E @ ''/'' @ c" by (simp add: child_def)
    with render_snoc [OF e] show ?thesis by simp
  qed
  with l d show ?thesis by simp
qed

lemma child_inject: "c \<noteq> c' \<Longrightarrow> child d c \<noteq> child d c'"
  by (simp add: child_def)

lemma filepath_Join3_nested: "filepath_Join [a, b, c] = filepath_Join [filepath_Join [a, b], c]"
  using filepath_Join_nested [of "[a, b]" c] by simp

lemma filepath_Join3_child: "plain c \<Longrightarrow> filepath_Join [a, b, c] = child (filepath_Join [a, b]) c"
  using filepath_Join_child [of c "[a, b]"] by simp

lemma filepath_Join2_child: "plain c \<Longrightarrow> filepath_Join [a, c] = child (filepath_Join [a]) c"
  using filepath_Join_child [of c "[a]"] by simp

lemma plain_names [simp]:
  "plain ''cert.pem''" "plain ''key.pem''" "plain ''chain.pem''" "plain ''domains.txt''"
  by (simp_all add: plain_def)

text \<open>The paths of the sample inputs.\<close>

lemma sample_paths:
  "filepath_Join [''/etc/autocert/certs''] = ''/etc/autocert/certs''"
  "filepath_Join [''/etc/autocert/certs'', ''example.com''] = ''/etc/autocert/certs/example.com''"
  "filepath_Join [''/etc/autocert/certs'', ''example.com'', ''cert.pem'']
     = ''/etc/autocert/certs/example.com/cert.pem''"
  "filepath_Join [''/etc/autocert/certs'', ''example.com'', ''key.pem'']
     = ''/etc/autocert/certs/example.com/key.pem''"
  "filepath_Join [''/etc/autocert/certs'', ''example.com'', ''chain.pem'']
     = ''/etc/autocert/certs/example.com/chain.pem''"
  "filepath_Join [''/etc/autocert/certs'', ''a.com_san''] = ''/etc/autocert/certs/a.com_san''"
  "filepath_Join [''/etc/autocert/certs'', ''a.com_san'', ''cert.pem'']
     = ''/etc/autocert/certs/a.com_san/cert.pem''"
  "filepath_Join [''/etc/autocert/certs'', ''a.com_san'', ''key.pem'']
     = ''/etc/autocert/certs/a.com_san/key.pem''"
  "filepath_Join [''/etc/autocert/certs'', ''a.com_san'', ''chain.pem'']
     = ''/etc/autocert/certs/a.com_san/chain.pem''"
  "filepath_Join [''/etc/autocert/certs'', ''a.com_san'', ''domains.txt'']
     = ''/etc/autocert/certs/a.com_san/domains.txt''"
  "filepath_Join [''/etc/autocert/certs'', ''example.com_san''] = ''/etc/autocert/certs/example.com_san''"
  "filepath_Join [''/etc/autocert/certs'', ''example.com_san'', ''cert.pem'']
     = ''/etc/autocert/certs/example.com_san/cert.pem''"
  "filepath_Join [''/etc/autocert/certs'', ''example.com_san'', ''key.pem'']
     = ''/etc/autocert/certs/example.com_san/key.pem''"
  "filepath_Join [''/etc/autocert/certs'', ''example.com_san'', ''chain.pem'']
     = ''/etc/autocert/certs/example.com_san/chain.pem''"
  "filepath_Join [''/etc/autocert/certs'', ''example.com_san'', ''domains.txt'']
     = ''/etc/autocert/certs/example.com_san/domains.txt''"
  by code_simp+

section \<open>The constructor of the multi-domain manager\<close>

text \<open>
  C10. \<^verbatim>\<open>NewMultiDomainManager\<close> returns no manager exactly for the empty list of
  domains, and \<^verbatim>\<open>installMultiDomain\<close> then stops with an error. For every other list
  it returns a manager whose primary domain is the first element, whose challenge type
  is Webroot and whose key size is 2048.
\<close>

theorem NewMultiDomainManager_guard:
  "(NewMultiDomainManager certRoot ds e = None) = (ds = []) \<and>
   installMultiDomain h certRoot f [] w = (Some NewMultiDomainManagerFailed, w) \<and>
   (ds \<noteq> [] \<longrightarrow>
      (\<exists>m. NewMultiDomainManager certRoot ds e = Some m \<and> domains m = ds \<and>
           primaryDomain m = ds ! 0 \<and> md_challengeType m = ChallengeWebroot \<and>
           md_keySize m = 2048))"
  by (cases ds) (simp_all add: NewMultiDomainManager_def installMultiDomain_def)

theorem NewMultiDomainManager_guard_witness:
  "[''a.com'', ''b.com''] \<noteq> [] \<and>
   (\<exists>m. NewMultiDomainManager ''/certs'' [''a.com'', ''b.com''] ''x@a.com'' = Some m \<and>
        primaryDomain m = ''a.com'' \<and> md_challengeType m = ChallengeWebroot \<and> md_keySize m = 2048)"
proof -
  have "[''a.com'', ''b.com''] ! 0 = ''a.com''" by simp
  with NewMultiDomainManager_guard [of "''/certs''" "[''a.com'', ''b.com'']" "''x@a.com''" host0 flags0 world0]
  show ?thesis by auto
qed

section \<open>Wildcards need the DNS challenge\<close>

text \<open>
  C1. When a domain of the manager has the wildcard prefix and the challenge type is
  not DNS, \<^verbatim>\<open>MultiDomainManager.Install\<close> returns an error and leaves the machine as it
  was: no directory is made, no key is drawn and no file is written.
\<close>

theorem md_Install_wildcard_needs_DNS:
  assumes "d \<in> set (domains m)" and "HasPrefix d ''*.''" and "md_challengeType m \<noteq> ChallengeDNS"
  shows "md_Install h m w = (Some WildcardChallengeMismatch, w)"
proof -
  from assms(1,2) have "hasWildcardDomain m"
    unfolding hasWildcardDomain_def list_ex_iff by blast
  with assms(3) show ?thesis by (simp add: md_Install_def)
qed

theorem md_Install_wildcard_needs_DNS_witness:
  "''*.example.com'' \<in> set (domains wildcardManager) \<and> HasPrefix ''*.example.com'' ''*.'' \<and>
   md_challengeType wildcardManager \<noteq> ChallengeDNS \<and>
   md_Install host0 wildcardManager world0 = (Some WildcardChallengeMismatch, world0)"
  using md_Install_wildcard_needs_DNS [of "''*.example.com''" wildcardManager host0 world0]
  by (simp add: wildcardManager_def HasPrefix_def)

section \<open>Validation of the domain names\<close>

lemma checkDomains_None: "checkDomains ds = None \<Longrightarrow> d \<in> set ds \<Longrightarrow> validateDomainName d = None"
  by (induction ds) (auto split: if_splits option.splits)

lemma parseDomains_Inr: "parseDomains f = Inr ds \<Longrightarrow> checkDomains ds = None"
  by (auto simp: parseDomains_def Let_def split: if_splits option.splits)

text \<open>
  C4, as stated, fails: a name with two stars that does not begin with the wildcard
  prefix passes \<^verbatim>\<open>validateDomainName\<close> and is accepted by \<^verbatim>\<open>parseDomains\<close>, and so
  does a name with a tab inside.
\<close>

theorem validateDomainName_counterexample:
  "count_list ''**.example.com'' (CHR ''*'') > 1 \<and>
   validateDomainName ''**.example.com'' = None \<and>
   parseDomains (flags0\<lparr>domain_flag := ''**.example.com''\<rparr>) = Inr [''**.example.com''] \<and>
   [CHR 0x09] \<in> set whiteSpace \<and>
   validateDomainName (''a'' @ [CHR 0x09] @ ''b.com'') = None \<and>
   parseDomains (flags0\<lparr>domain_flag := ''a'' @ [CHR 0x09] @ ''b.com''\<rparr>)
     = Inr [''a'' @ [CHR 0x09] @ ''b.com'']"
  by code_simp

text \<open>
  C4, amended. A name that begins with the wildcard prefix and has another star after
  it, or that contains a space character, fails \<^verbatim>\<open>validateDomainName\<close>, and no list
  that \<^verbatim>\<open>parseDomains\<close> returns contains it.
\<close>

theorem validateDomainName_rejects:
  assumes "(HasPrefix d ''*.'' \<and> CHR ''*'' \<in> set (drop 2 d)) \<or> CHR '' '' \<in> set d"
  shows "validateDomainName d \<noteq> None \<and> (parseDomains f = Inr ds \<longrightarrow> d \<notin> set ds)"
proof -
  from assms have bad: "validateDomainName d \<noteq> None"
    by (auto simp: validateDomainName_def Contains_single)
  moreover have "d \<notin> set ds" if "parseDomains f = Inr ds"
    using bad checkDomains_None [OF parseDomains_Inr [OF that]] by auto
  ultimately show ?thesis by blast
qed

theorem validateDomainName_rejects_witness:
  "((HasPrefix ''*.a.*.com'' ''*.'' \<and> CHR ''*'' \<in> set (drop 2 ''*.a.*.com'')) \<or> CHR '' '' \<in> set ''*.a.*.com'') \<and>
   validateDomainName ''*.a.*.com'' \<noteq> None \<and>
   parseDomains (flags0\<lparr>domains_flag := ''a.com,*.a.*.com''\<rparr>) \<noteq> Inr [''a.com'', ''*.a.*.com'']"
  using validateDomainName_rejects [of "''*.a.*.com''" "flags0\<lparr>domains_flag := ''a.com,*.a.*.com''\<rparr>" "[''a.com'', ''*.a.*.com'']"]
  by (simp add: HasPrefix_def)

section \<open>The choice of the challenge type\<close>

lemma challengeType_singleManager:
  "challengeType (singleManager certRoot f d) =
     (if dnsChallenge f \<or> HasPrefix d ''*.'' then ChallengeDNS
      else if standalone f then ChallengeStandalone else ChallengeWebroot)"
  by (simp add: singleManager_def Let_def SetChallengeType_def SetWebrootPath_def
      SetWebServer_def NewManager_def)

lemma challengeType_multiManager:
  "md_challengeType (multiManager f ds m0) =
     (if dnsChallenge f \<or> hasWildcard ds then ChallengeDNS
      else if standalone f then ChallengeStandalone else ChallengeWebroot)"
  by (simp add: multiManager_def Let_def md_SetChallengeType_def md_SetWebrootPath_def
      md_SetWebServer_def)

lemma serverCount_one: "serverCount f = 1 \<Longrightarrow> (nginx f \<or> apache f \<or> iis f) \<and> \<not> serverCount f > 1"
  by (auto simp: serverCount_def split: if_splits)

lemma hasWildcard_single: "hasWildcard [d] = HasPrefix d ''*.''"
  by (simp add: hasWildcard_def)

text \<open>
  C5, as stated, fails: the flags of the web server are checked before anything else.
  With none of them given, \<^verbatim>\<open>--standalone\<close> together with \<^verbatim>\<open>--webroot\<close> fails, but
  not with the error for conflicting modes; and with no mode flag at all no challenge
  type is given to a manager, Webroot or other.
\<close>

theorem selectChallenge_counterexample:
  "challengeCount noServerFlags > 1 \<and>
   selectChallenge ''/etc/autocert/certs'' noServerFlags [''example.com'']
     = Inl NoWebServerGiven \<and>
   challengeCount (flags0\<lparr>nginx := False\<rparr>) = 0 \<and>
   selectChallenge ''/etc/autocert/certs'' (flags0\<lparr>nginx := False\<rparr>) [''example.com'']
     = Inl NoWebServerGiven"
  by (simp add: noServerFlags_def flags0_def challengeCount_def selectChallenge_def
      validateInstallFlags_def)

text \<open>
  C5, amended. With exactly one web server flag and at least one domain, the selection
  fails with \<open>WildcardRequiresDNS\<close> whenever a domain has the wildcard prefix and DNS is
  not selected; it fails with \<open>InvalidChallengeConfiguration\<close> whenever more than one
  mode flag is set, unless the error for the wildcard applies, which is then the one
  returned; otherwise it gives the manager exactly one challenge type: DNS with
  \<^verbatim>\<open>--dns\<close>, Standalone with \<^verbatim>\<open>--standalone\<close>, and Webroot with a webroot path or
  with no mode flag at all.
\<close>

theorem selectChallenge_correct:
  assumes "serverCount f = 1" and "ds \<noteq> []"
  shows "selectChallenge certRoot f ds =
     (if hasWildcard ds \<and> \<not> dnsChallenge f then Inl WildcardRequiresDNS
      else if challengeCount f > 1 then Inl InvalidChallengeConfiguration
      else if dnsChallenge f then Inr ChallengeDNS
      else if standalone f then Inr ChallengeStandalone
      else Inr ChallengeWebroot)"
proof -
  note sc = serverCount_one [OF assms(1)]
  show ?thesis
  proof (cases "validateInstallFlags f ds")
    case (Some e)
    with sc show ?thesis
      by (auto simp: selectChallenge_def validateInstallFlags_def split: if_splits)
  next
    case None
    with sc have ok: "\<not> (hasWildcard ds \<and> \<not> dnsChallenge f)" "\<not> challengeCount f > 1"
      by (auto simp: validateInstallFlags_def split: if_splits)
    show ?thesis
    proof (cases "length ds = 1")
      case True
      then obtain d where d: "ds = [d]" by (cases ds) auto
      with None ok show ?thesis
        by (auto simp: selectChallenge_def challengeType_singleManager hasWildcard_single)
    next
      case False
      from assms(2) obtain m0 where "NewMultiDomainManager certRoot ds (email_flag f) = Some m0"
        by (cases ds) (auto simp: NewMultiDomainManager_def)
      with None ok False show ?thesis
        by (auto simp: selectChallenge_def challengeType_multiManager)
    qed
  qed
qed

theorem selectChallenge_correct_witness:
  "serverCount flags0 = 1 \<and> [''example.com''] \<noteq> [] \<and>
   selectChallenge ''/etc/autocert/certs'' flags0 [''example.com''] = Inr ChallengeWebroot \<and>
   serverCount conflictingFlags = 1 \<and>
   selectChallenge ''/etc/autocert/certs'' conflictingFlags [''example.com'', ''www.example.com'']
     = Inl InvalidChallengeConfiguration \<and>
   selectChallenge ''/etc/autocert/certs'' conflictingFlags [''*.example.com'']
     = Inl WildcardRequiresDNS"
  using selectChallenge_correct [of flags0 "[''example.com'']" "''/etc/autocert/certs''"]
    selectChallenge_correct [of conflictingFlags "[''example.com'', ''www.example.com'']" "''/etc/autocert/certs''"]
    selectChallenge_correct [of conflictingFlags "[''*.example.com'']" "''/etc/autocert/certs''"]
  by (simp add: flags0_def conflictingFlags_def serverCount_def challengeCount_def hasWildcard_def HasPrefix_def)

section \<open>Reading the stored certificate\<close>

lemma os_Stat_exists: "files w p = Some c \<Longrightarrow> \<not> os_IsNotExist (os_Stat h p w)"
  by (simp add: os_Stat_def os_IsNotExist_def)

lemma GetCertInfo_stored:
  assumes "files w (getCertPath m) = Some (PEM ty (X509 cert))"
    and "\<not> fails h (CallReadFile (getCertPath m)) w"
  shows "GetCertInfo h m w =
     (Inr \<lparr>Domain = domain m, CertPath = getCertPath m, KeyPath = getKeyPath m,
           ChainPath = getChainPath m, ExpiryDate = NotAfter cert,
           IsValid = (clock h (reads w) < NotAfter cert)\<rparr>, w\<lparr>reads := Suc (reads w)\<rparr>)"
  using assms os_Stat_exists [OF assms(1), of h]
  by (simp add: GetCertInfo_def os_ReadFile_def pem_Decode_def
      x509_ParseCertificate_def time_Now_def Before_def)

lemma GetCertInfo_InrD:
  assumes "GetCertInfo h m w = (Inr info, w')"
  shows "\<exists>ty cert. files w (getCertPath m) = Some (PEM ty (X509 cert)) \<and>
           \<not> fails h (CallReadFile (getCertPath m)) w"
  using assms
  by (auto simp: GetCertInfo_def os_ReadFile_def pem_Decode_def
      x509_ParseCertificate_def
      split: if_splits option.splits sum.splits content.splits der.splits prod.splits)

lemma exampleManager_paths:
  "getCertPath exampleManager = ''/etc/autocert/certs/example.com/cert.pem''"
  "getKeyPath exampleManager = ''/etc/autocert/certs/example.com/key.pem''"
  "getChainPath exampleManager = ''/etc/autocert/certs/example.com/chain.pem''"
  by (simp_all add: exampleManager_def NewManager_def getCertPath_def getKeyPath_def
      getChainPath_def sample_paths)

text \<open>
  C7, as stated, fails. Where the directory of the store is a regular file, the file
  of the certificate is absent, but \<^verbatim>\<open>os.Stat\<close> does not say that it does not exist:
  the error is the one for a failed read.
\<close>

theorem GetCertInfo_absent_counterexample:
  "files fileForDirWorld (getCertPath exampleManager) = None \<and>
   getCertPath exampleManager \<notin> dirs fileForDirWorld \<and>
   os_Stat host0 (getCertPath exampleManager) fileForDirWorld = Some ENOTDIR \<and>
   fst (GetCertInfo host0 exampleManager fileForDirWorld)
     = Inl (ReadCertificateFailed
         (Failed (CallReadFile ''/etc/autocert/certs/example.com/cert.pem'')))"
proof -
  have a: "list_ex (\<lambda>q. files fileForDirWorld q \<noteq> None)
      (ancestors ''/etc/autocert/certs/example.com/cert.pem'')"
    by code_simp
  have f: "files fileForDirWorld ''/etc/autocert/certs/example.com/cert.pem'' = None"
    by (simp add: fileForDirWorld_def world0_def)
  have d: "dirs fileForDirWorld = {}"
    by (simp add: fileForDirWorld_def world0_def)
  from a f d show ?thesis
    by (simp add: exampleManager_paths os_Stat_def GetCertInfo_def os_IsNotExist_def
        os_ReadFile_def)
qed

text \<open>
  C7, amended. \<^verbatim>\<open>GetCertInfo\<close> fails with \<open>CertificateNotFound\<close> when \<^verbatim>\<open>os.Stat\<close>
  finds that the file of the certificate does not exist: nothing is at its path, no
  path above it is a regular file, and the call itself is not refused. When the file
  is absent and \<^verbatim>\<open>os.Stat\<close> fails otherwise, it fails with the error of the read. It
  fails with \<open>CertificateUnreadable\<close> when no PEM block is found in the file that was
  read, and with \<open>CertificateParseError\<close> when the bytes of the block are not a
  certificate. When it succeeds, the file holds a certificate, the expiry is its
  \<open>NotAfter\<close>, and the validity flag is whether the clock reads less than \<open>NotAfter\<close>:
  neither \<open>NotBefore\<close> nor anything else of the certificate takes part.
\<close>

theorem GetCertInfo_outcomes:
  "(files w (getCertPath m) = None \<and> getCertPath m \<notin> dirs w \<and>
    \<not> list_ex (\<lambda>q. files w q \<noteq> None) (ancestors (getCertPath m)) \<and>
    \<not> fails h (CallStat (getCertPath m)) w \<longrightarrow>
      GetCertInfo h m w = (Inl (CertificateNotFound (getCertPath m)), w)) \<and>
   (files w (getCertPath m) = None \<and> os_Stat h (getCertPath m) w \<noteq> Some ENOENT \<longrightarrow>
      GetCertInfo h m w
        = (Inl (ReadCertificateFailed (Failed (CallReadFile (getCertPath m)))), w)) \<and>
   (os_ReadFile h (getCertPath m) w = Inr c \<and> pem_Decode c = None \<longrightarrow>
      GetCertInfo h m w = (Inl CertificateUnreadable, w)) \<and>
   (os_ReadFile h (getCertPath m) w = Inr c \<and> pem_Decode c = Some (ty, bytes) \<and>
    x509_ParseCertificate bytes = Inl e \<longrightarrow>
      GetCertInfo h m w = (Inl (CertificateParseError e), w)) \<and>
   (GetCertInfo h m w = (Inr info, w') \<longrightarrow>
      (\<exists>ty cert. files w (getCertPath m) = Some (PEM ty (X509 cert)) \<and>
         ExpiryDate info = NotAfter cert \<and>
         IsValid info = (clock h (reads w) < NotAfter cert)))"
proof (intro conjI impI)
  assume "files w (getCertPath m) = None \<and> getCertPath m \<notin> dirs w \<and>
    \<not> list_ex (\<lambda>q. files w q \<noteq> None) (ancestors (getCertPath m)) \<and>
    \<not> fails h (CallStat (getCertPath m)) w"
  then have "os_Stat h (getCertPath m) w = Some ENOENT"
    by (simp add: os_Stat_def)
  then show "GetCertInfo h m w = (Inl (CertificateNotFound (getCertPath m)), w)"
    by (simp add: GetCertInfo_def os_IsNotExist_def)
next
  assume "files w (getCertPath m) = None \<and> os_Stat h (getCertPath m) w \<noteq> Some ENOENT"
  then show "GetCertInfo h m w
        = (Inl (ReadCertificateFailed (Failed (CallReadFile (getCertPath m)))), w)"
    by (simp add: GetCertInfo_def os_IsNotExist_def os_ReadFile_def)
next
  assume a: "os_ReadFile h (getCertPath m) w = Inr c \<and> pem_Decode c = None"
  then have "\<not> os_IsNotExist (os_Stat h (getCertPath m) w)"
    by (auto simp: os_ReadFile_def os_Stat_exists split: option.splits)
  with a show "GetCertInfo h m w = (Inl CertificateUnreadable, w)"
    by (simp add: GetCertInfo_def)
next
  assume a: "os_ReadFile h (getCertPath m) w = Inr c \<and> pem_Decode c = Some (ty, bytes) \<and>
    x509_ParseCertificate bytes = Inl e"
  then have "\<not> os_IsNotExist (os_Stat h (getCertPath m) w)"
    by (auto simp: os_ReadFile_def os_Stat_exists split: option.splits)
  with a show "GetCertInfo h m w = (Inl (CertificateParseError e), w)"
    by (simp add: GetCertInfo_def)
next
  assume a: "GetCertInfo h m w = (Inr info, w')"
  from GetCertInfo_InrD [OF a] obtain ty cert
    where f: "files w (getCertPath m) = Some (PEM ty (X509 cert))"
      and r: "\<not> fails h (CallReadFile (getCertPath m)) w" by blast
  from GetCertInfo_stored [OF f r] a
  have "ExpiryDate info = NotAfter cert \<and> IsValid info = (clock h (reads w) < NotAfter cert)"
    by auto
  with f show "\<exists>ty cert. files w (getCertPath m) = Some (PEM ty (X509 cert)) \<and>
         ExpiryDate info = NotAfter cert \<and> IsValid info = (clock h (reads w) < NotAfter cert)"
    by blast
qed

text \<open>
  The cases at concrete files. In the last one the certificate is not valid yet (its
  \<open>NotBefore\<close> is ahead of the clock), and the flag is true all the same.
\<close>

theorem GetCertInfo_outcomes_witness:
  "files world0 (getCertPath exampleManager) = None \<and>
   getCertPath exampleManager \<notin> dirs world0 \<and>
   \<not> list_ex (\<lambda>q. files world0 q \<noteq> None) (ancestors (getCertPath exampleManager)) \<and>
   \<not> fails host0 (CallStat (getCertPath exampleManager)) world0 \<and>
   fst (GetCertInfo host0 exampleManager world0)
     = Inl (CertificateNotFound ''/etc/autocert/certs/example.com/cert.pem'') \<and>
   os_Stat (stageHost (CallStat ''/etc/autocert/certs/example.com/cert.pem''))
       (getCertPath exampleManager) world0 = Some EACCES \<and>
   fst (GetCertInfo (stageHost (CallStat ''/etc/autocert/certs/example.com/cert.pem''))
          exampleManager world0)
     = Inl (ReadCertificateFailed
         (Failed (CallReadFile ''/etc/autocert/certs/example.com/cert.pem''))) \<and>
   os_ReadFile host0 (getCertPath exampleManager) (storedWorld (Raw ''hello'')) = Inr (Raw ''hello'') \<and>
   pem_Decode (Raw ''hello'') = None \<and>
   fst (GetCertInfo host0 exampleManager (storedWorld (Raw ''hello''))) = Inl CertificateUnreadable \<and>
   x509_ParseCertificate (Malformed ''junk'') = Inl (Failed CallParseCertificate) \<and>
   fst (GetCertInfo host0 exampleManager (storedWorld (PEM ''CERTIFICATE'' (Malformed ''junk''))))
     = Inl (CertificateParseError (Failed CallParseCertificate)) \<and>
   clock host0 0 < NotBefore (exampleCert (1700000001 * Second) (1700000002 * Second)) \<and>
   (\<exists>info w'. GetCertInfo host0 exampleManager
        (storedWorld (PEM ''CERTIFICATE'' (X509 (exampleCert (1700000001 * Second) (1700000002 * Second)))))
        = (Inr info, w') \<and> IsValid info)"
proof -
  let ?p = "''/etc/autocert/certs/example.com/cert.pem''"
  let ?c = "exampleCert (1700000001 * Second) (1700000002 * Second)"
  let ?w = "storedWorld (PEM ''CERTIFICATE'' (X509 ?c))"
  let ?hs = "stageHost (CallStat ?p)"
  have 1: "files world0 (getCertPath exampleManager) = None \<and>
      getCertPath exampleManager \<notin> dirs world0 \<and>
      \<not> list_ex (\<lambda>q. files world0 q \<noteq> None) (ancestors (getCertPath exampleManager)) \<and>
      \<not> fails host0 (CallStat (getCertPath exampleManager)) world0"
    by (simp add: world0_def host0_def list_ex_iff)
  have s0: "files world0 (getCertPath exampleManager) = None"
    by (simp add: world0_def)
  have s1: "os_Stat ?hs (getCertPath exampleManager) world0 = Some EACCES"
    by (simp add: os_Stat_def exampleManager_paths world0_def stageHost_def list_ex_iff)
  have 2: "os_ReadFile host0 (getCertPath exampleManager) (storedWorld (Raw ''hello'')) = Inr (Raw ''hello'')"
    by (simp add: os_ReadFile_def exampleManager_paths storedWorld_def host0_def)
  have 3: "pem_Decode (Raw ''hello'') = None"
    by (simp add: pem_Decode_def)
  have 4: "os_ReadFile host0 (getCertPath exampleManager) (storedWorld (PEM ''CERTIFICATE'' (Malformed ''junk'')))
      = Inr (PEM ''CERTIFICATE'' (Malformed ''junk''))"
    by (simp add: os_ReadFile_def exampleManager_paths storedWorld_def host0_def)
  have 5: "pem_Decode (PEM ''CERTIFICATE'' (Malformed ''junk'')) = Some (''CERTIFICATE'', Malformed ''junk'')"
    by (simp add: pem_Decode_def)
  have 6: "x509_ParseCertificate (Malformed ''junk'') = Inl (Failed CallParseCertificate)"
    by (simp add: x509_ParseCertificate_def)
  have 8: "files ?w (getCertPath exampleManager) = Some (PEM ''CERTIFICATE'' (X509 ?c))"
    by (simp add: exampleManager_paths storedWorld_def)
  have r: "\<not> fails host0 (CallReadFile (getCertPath exampleManager)) ?w"
    by (simp add: host0_def)
  obtain info w' where 7: "GetCertInfo host0 exampleManager ?w = (Inr info, w')"
    using GetCertInfo_stored [OF 8 r] by simp
  have 9: "clock host0 0 < NotBefore ?c \<and> clock host0 (reads ?w) < NotAfter ?c"
    by (simp add: host0_def exampleCert_def storedWorld_def world0_def Second_def)
  from GetCertInfo_outcomes [of world0 exampleManager host0] 1
  have a: "fst (GetCertInfo host0 exampleManager world0) = Inl (CertificateNotFound ?p)"
    by (simp add: exampleManager_paths)
  from GetCertInfo_outcomes [of world0 exampleManager ?hs] s0 s1
  have a': "fst (GetCertInfo ?hs exampleManager world0)
      = Inl (ReadCertificateFailed (Failed (CallReadFile ?p)))"
    by (simp add: exampleManager_paths)
  from GetCertInfo_outcomes [of "storedWorld (Raw ''hello'')" exampleManager host0 "Raw ''hello''"] 2 3
  have b: "fst (GetCertInfo host0 exampleManager (storedWorld (Raw ''hello''))) = Inl CertificateUnreadable"
    by simp
  from GetCertInfo_outcomes [of "storedWorld (PEM ''CERTIFICATE'' (Malformed ''junk''))" exampleManager host0
      "PEM ''CERTIFICATE'' (Malformed ''junk'')" "''CERTIFICATE''" "Malformed ''junk''" "Failed CallParseCertificate"] 4 5 6
  have c: "fst (GetCertInfo host0 exampleManager (storedWorld (PEM ''CERTIFICATE'' (Malformed ''junk''))))
     = Inl (CertificateParseError (Failed CallParseCertificate))"
    by simp
  from GetCertInfo_outcomes [of ?w exampleManager host0 _ _ _ _ info w'] 7 8 9
  have d: "IsValid info" by auto
  from 1 a s1 a' 2 3 b 6 c 9 7 d show ?thesis by blast
qed

section \<open>Installation, then reading back\<close>

lemma toSeconds_bounds: "t - Second < toSeconds t \<and> toSeconds t \<le> t"
proof -
  have "toSeconds t = t - t mod Second"
    by (simp add: toSeconds_def minus_mod_eq_div_mult)
  moreover have "0 \<le> t mod Second \<and> t mod Second < Second"
    by (simp add: Second_def)
  ultimately show ?thesis by linarith
qed

text \<open>The steps of a successful \<^verbatim>\<open>Install\<close> of the single-domain manager.\<close>

lemma Install_NoneD:
  assumes "Install h m w = (None, w')"
  shows "\<exists>w1 privateKey w2 csr cert w3.
     createCertDir h m w = (None, w1) \<and> generatePrivateKey h m w1 = (Inr privateKey, w2) \<and>
     createCSR h m privateKey w2 = Inr csr \<and> obtainCertificate h m csr w2 = (Inr cert, w3) \<and>
     saveCertificate h m cert w3 = (None, w') \<and> configureWebServer m = None"
  using assms
  by (auto simp: Install_def split: prod.splits option.splits sum.splits)

lemma createCertDir_NoneD:
  "createCertDir h m w = (None, w') \<Longrightarrow> w' = w\<lparr>dirs := insert (filepath_Join [certDir m, domain m]) (dirs w)\<rparr>"
  by (auto simp: createCertDir_def os_MkdirAll_def split: if_splits)

lemma generatePrivateKey_InrD:
  "generatePrivateKey h m w = (Inr privateKey, w') \<Longrightarrow>
   w' = w\<lparr>files := (files w)(getKeyPath m \<mapsto> PEM ''RSA PRIVATE KEY'' (PKCS1 privateKey)),
          draws := Suc (draws w)\<rparr>"
  by (auto simp: generatePrivateKey_def rsa_GenerateKey_def os_Create_def pem_Encode_def
      os_Chmod_def split: if_splits)

lemma createCSR_InrD:
  "createCSR h m privateKey w = Inr csr \<Longrightarrow>
   csr = PKCS10 \<lparr>reqSubject = domain m, reqDNSNames = [domain m]\<rparr>"
  by (auto simp: createCSR_def x509_CreateCertificateRequest_def split: if_splits)

lemma generateSelfSignedCert_InrD:
  "generateSelfSignedCert h (PKCS10 r) w = (Inr cert, w') \<Longrightarrow>
   cert = X509 \<lparr>Subject = reqSubject r, DNSNames = reqDNSNames r,
                NotBefore = toSeconds (clock h (reads w)),
                NotAfter = toSeconds (clock h (Suc (reads w)) + 90 * 24 * Hour)\<rparr> \<and>
   w' = w\<lparr>reads := Suc (Suc (reads w)), draws := Suc (draws w)\<rparr>"
  by (auto simp: generateSelfSignedCert_def x509_ParseCertificateRequest_def time_Now_def
      rsa_GenerateKey_def x509_CreateCertificate_def Let_def split: if_splits)

lemma obtainCertificate_InrD:
  "obtainCertificate h m csr w = (Inr cert, w') \<Longrightarrow> generateSelfSignedCert h csr w = (Inr cert, w')"
  by (auto simp: obtainCertificate_def obtainCertificateWebroot_def
      obtainCertificateStandalone_def obtainCertificateDNS_def split: if_splits)

lemma saveCertificate_NoneD:
  "saveCertificate h m cert w = (None, w') \<Longrightarrow>
   w' = w\<lparr>files := (files w)(getCertPath m \<mapsto> PEM ''CERTIFICATE'' cert)\<rparr>"
  by (auto simp: saveCertificate_def os_Create_def pem_Encode_def split: if_splits)

lemma Install_success:
  assumes "Install h m w = (None, w')"
  shows "files w' (getCertPath m) = Some (PEM ''CERTIFICATE''
           (X509 \<lparr>Subject = domain m, DNSNames = [domain m],
                  NotBefore = toSeconds (clock h (reads w)),
                  NotAfter = toSeconds (clock h (Suc (reads w)) + 90 * 24 * Hour)\<rparr>))"
    and "reads w' = reads w + 2"
proof -
  from Install_NoneD [OF assms] obtain w1 privateKey w2 csr cert w3 where
    s1: "createCertDir h m w = (None, w1)" and
    s2: "generatePrivateKey h m w1 = (Inr privateKey, w2)" and
    s3: "createCSR h m privateKey w2 = Inr csr" and
    s4: "obtainCertificate h m csr w2 = (Inr cert, w3)" and
    s5: "saveCertificate h m cert w3 = (None, w')" by blast
  note d1 = createCertDir_NoneD [OF s1]
  note d2 = generatePrivateKey_InrD [OF s2]
  note d3 = createCSR_InrD [OF s3]
  from obtainCertificate_InrD [OF s4] d3
  have "generateSelfSignedCert h (PKCS10 \<lparr>reqSubject = domain m, reqDNSNames = [domain m]\<rparr>) w2 = (Inr cert, w3)"
    by simp
  note d4 = generateSelfSignedCert_InrD [OF this]
  note d5 = saveCertificate_NoneD [OF s5]
  have r2: "reads w2 = reads w" using d1 d2 by simp
  from d4 r2 d5 show "files w' (getCertPath m) = Some (PEM ''CERTIFICATE''
           (X509 \<lparr>Subject = domain m, DNSNames = [domain m],
                  NotBefore = toSeconds (clock h (reads w)),
                  NotAfter = toSeconds (clock h (Suc (reads w)) + 90 * 24 * Hour)\<rparr>))"
    by simp
  from d4 r2 d5 show "reads w' = reads w + 2" by simp
qed

text \<open>
  C3. After an \<^verbatim>\<open>Install\<close> that returned no error, \<^verbatim>\<open>GetCertInfo\<close> succeeds when the
  read of the file does not fail. The expiry it reports is the time of the installation
  (the reading of the clock for \<open>NotAfter\<close>) plus 90 days, cut to the second: at most
  one second less. The validity flag compares the next reading of the clock with it,
  and is true when that reading is no later than 90 days less a second after the
  installation.
\<close>

theorem Install_GetCertInfo_roundtrip:
  assumes "Install h m w = (None, w')"
    and "\<not> fails h (CallReadFile (getCertPath m)) w'"
  shows "\<exists>info. GetCertInfo h m w' = (Inr info, w'\<lparr>reads := Suc (reads w')\<rparr>) \<and>
     ExpiryDate info = toSeconds (clock h (Suc (reads w)) + 90 * 24 * Hour) \<and>
     clock h (Suc (reads w)) + 90 * 24 * Hour - Second < ExpiryDate info \<and>
     ExpiryDate info \<le> clock h (Suc (reads w)) + 90 * 24 * Hour \<and>
     IsValid info = (clock h (reads w + 2) < ExpiryDate info) \<and>
     (clock h (reads w + 2) \<le> clock h (Suc (reads w)) + 90 * 24 * Hour - Second \<longrightarrow> IsValid info)"
proof -
  let ?t = "clock h (Suc (reads w)) + 90 * 24 * Hour"
  note s = Install_success [OF assms(1)]
  note g = GetCertInfo_stored [OF s(1) assms(2)]
  note b = toSeconds_bounds [of ?t]
  let ?info = "\<lparr>Domain = domain m, CertPath = getCertPath m, KeyPath = getKeyPath m,
           ChainPath = getChainPath m, ExpiryDate = toSeconds ?t,
           IsValid = (clock h (reads w + 2) < toSeconds ?t)\<rparr>"
  from g s(2) have "GetCertInfo h m w' = (Inr ?info, w'\<lparr>reads := Suc (reads w')\<rparr>)"
    by simp
  moreover have "ExpiryDate ?info = toSeconds ?t" by simp
  moreover from b have "?t - Second < ExpiryDate ?info \<and> ExpiryDate ?info \<le> ?t" by simp
  moreover have "IsValid ?info = (clock h (reads w + 2) < ExpiryDate ?info)" by simp
  moreover from b have "clock h (reads w + 2) \<le> ?t - Second \<longrightarrow> IsValid ?info" by simp
  ultimately show ?thesis by blast
qed


lemmas Install_steps =
  Install_def createCertDir_def generatePrivateKey_def createCSR_def obtainCertificate_def
  obtainCertificateWebroot_def obtainCertificateStandalone_def obtainCertificateDNS_def
  generateSelfSignedCert_def saveCertificate_def configureWebServer_def configureNginx_def
  configureApache_def configureIIS_def

lemmas library_calls =
  os_MkdirAll_def os_Create_def pem_Encode_def os_Chmod_def os_WriteFile_def
  rsa_GenerateKey_def x509_CreateCertificateRequest_def x509_ParseCertificateRequest_def
  x509_CreateCertificate_def time_Now_def

lemma Install_example: "fst (Install host0 exampleManager world0) = None"
  by (simp add: Install_steps library_calls host0_def exampleManager_def NewManager_def Let_def)

theorem Install_GetCertInfo_roundtrip_witness:
  "\<exists>w' info w''. Install host0 exampleManager world0 = (None, w') \<and>
     \<not> fails host0 (CallReadFile (getCertPath exampleManager)) w' \<and>
     GetCertInfo host0 exampleManager w' = (Inr info, w'') \<and>
     ExpiryDate info = 1707776000 * Second \<and> IsValid info"
proof -
  obtain w' where i: "Install host0 exampleManager world0 = (None, w')"
    using Install_example by (cases "Install host0 exampleManager world0") auto
  have r: "\<not> fails host0 (CallReadFile (getCertPath exampleManager)) w'"
    by (simp add: host0_def)
  have t: "toSeconds (clock host0 (Suc (reads world0)) + 90 * 24 * Hour) = 1707776000 * Second"
    by (simp add: toSeconds_def host0_def world0_def Hour_def Second_def)
  have c: "clock host0 (reads world0 + 2) \<le> clock host0 (Suc (reads world0)) + 90 * 24 * Hour - Second"
    by (simp add: host0_def world0_def Hour_def Second_def)
  from Install_GetCertInfo_roundtrip [OF i r] t c i r show ?thesis
    by auto
qed

section \<open>Errors of the steps of an installation\<close>

lemmas md_Install_steps =
  md_Install_def hasWildcardDomain_def md_createCertDir_def md_generatePrivateKey_def
  createMultiDomainCSR_def md_obtainCertificate_def md_obtainCertificateWebroot_def
  md_obtainCertificateStandalone_def md_obtainCertificateDNS_def
  generateMultiDomainSelfSignedCert_def md_saveCertificate_def configureWebServers_def
  md_configureNginx_def md_configureApache_def md_configureIIS_def
  md_getCertPath_def md_getKeyPath_def md_getChainPath_def getDomainsListPath_def

text \<open>
  C8, as stated, fails. On a host where only the write of \<^verbatim>\<open>domains.txt\<close> fails,
  \<^verbatim>\<open>MultiDomainManager.Install\<close> returns no error: the write is the one made on the
  last state of the run, it returns an error, and the file is not there.
\<close>

theorem md_Install_swallows_counterexample:
  "fst (md_Install listFailsHost sanManager world0) = None \<and>
   fst (os_WriteFile listFailsHost (getDomainsListPath sanManager)
          (Join (domains sanManager) [CHR 0x0A]) (snd (md_Install listFailsHost sanManager world0)))
     = Some (Failed (CallWriteFile ''/etc/autocert/certs/a.com_san/domains.txt'')) \<and>
   files (snd (md_Install listFailsHost sanManager world0)) (getDomainsListPath sanManager) = None"
  by (simp add: md_Install_steps library_calls listFailsHost_def host0_def world0_def
      sanManager_def HasPrefix_def sample_paths Let_def)

lemma md_paths_distinct:
  "md_getCertPath m \<noteq> getDomainsListPath m" "md_getKeyPath m \<noteq> getDomainsListPath m"
  "md_getKeyPath m \<noteq> md_getCertPath m"
  by (simp_all add: md_getCertPath_def md_getKeyPath_def getDomainsListPath_def Let_def
      filepath_Join3_child child_inject)

lemma md_saveCertificate_NoneD:
  assumes "md_saveCertificate h m cert w = (None, w')"
  shows "files w' (md_getCertPath m) = Some (PEM ''CERTIFICATE'' cert)"
    and "files w' (md_getKeyPath m) = files w (md_getKeyPath m)"
    and "\<not> fails h (CallWriteFile (getDomainsListPath m))
           (w\<lparr>files := (files w)(md_getCertPath m \<mapsto> PEM ''CERTIFICATE'' cert)\<rparr>) \<Longrightarrow>
         files w' (getDomainsListPath m) = Some (Raw (Join (domains m) [CHR 0x0A]))"
    and "dirs w' = dirs w" and "reads w' = reads w" and "draws w' = draws w"
  using assms md_paths_distinct [of m]
  by (auto simp: md_saveCertificate_def os_Create_def pem_Encode_def os_WriteFile_def
      split: if_splits)

text \<open>
  C8, amended. An error returned by one of the six steps of \<^verbatim>\<open>Install\<close>, in either
  manager, ends the installation with that error wrapped by the error of the step.
  An error of the configuration of the web server does so although the file of the
  certificate is written by then. (The error of the write of \<^verbatim>\<open>domains.txt\<close> is no
  error of a step: \<^verbatim>\<open>saveCertificate\<close> logs it and returns none.)
\<close>

theorem Install_errors_abort:
  "(createCertDir h m w = (Some e, wDir) \<longrightarrow> Install h m w = (Some (CreateCertDirFailed e), wDir)) \<and>
   (createCertDir h m w = (None, wDir) \<and> generatePrivateKey h m wDir = (Inl e, wKey) \<longrightarrow>
      Install h m w = (Some (GenerateKeyFailed e), wKey)) \<and>
   (createCertDir h m w = (None, wDir) \<and> generatePrivateKey h m wDir = (Inr privateKey, wKey) \<and>
    createCSR h m privateKey wKey = Inl e \<longrightarrow>
      Install h m w = (Some (CreateCSRFailed e), wKey)) \<and>
   (createCertDir h m w = (None, wDir) \<and> generatePrivateKey h m wDir = (Inr privateKey, wKey) \<and>
    createCSR h m privateKey wKey = Inr csr \<and> obtainCertificate h m csr wKey = (Inl e, wCert) \<longrightarrow>
      Install h m w = (Some (ObtainCertificateFailed e), wCert)) \<and>
   (createCertDir h m w = (None, wDir) \<and> generatePrivateKey h m wDir = (Inr privateKey, wKey) \<and>
    createCSR h m privateKey wKey = Inr csr \<and> obtainCertificate h m csr wKey = (Inr cert, wCert) \<and>
    saveCertificate h m cert wCert = (Some e, wSaved) \<longrightarrow>
      Install h m w = (Some (SaveCertificateFailed e), wSaved)) \<and>
   (createCertDir h m w = (None, wDir) \<and> generatePrivateKey h m wDir = (Inr privateKey, wKey) \<and>
    createCSR h m privateKey wKey = Inr csr \<and> obtainCertificate h m csr wKey = (Inr cert, wCert) \<and>
    saveCertificate h m cert wCert = (None, wSaved) \<and> configureWebServer m = Some e \<longrightarrow>
      Install h m w = (Some (ConfigureWebServerFailed e), wSaved) \<and>
      files wSaved (getCertPath m) = Some (PEM ''CERTIFICATE'' cert)) \<and>
   (\<not> (hasWildcardDomain mm \<and> md_challengeType mm \<noteq> ChallengeDNS) \<longrightarrow>
     (md_createCertDir h mm w = (Some e, wDir) \<longrightarrow>
        md_Install h mm w = (Some (CreateCertDirFailed e), wDir)) \<and>
     (md_createCertDir h mm w = (None, wDir) \<and> md_generatePrivateKey h mm wDir = (Inl e, wKey) \<longrightarrow>
        md_Install h mm w = (Some (GenerateKeyFailed e), wKey)) \<and>
     (md_createCertDir h mm w = (None, wDir) \<and> md_generatePrivateKey h mm wDir = (Inr privateKey, wKey) \<and>
      createMultiDomainCSR h mm privateKey wKey = Inl e \<longrightarrow>
        md_Install h mm w = (Some (CreateMultiCSRFailed e), wKey)) \<and>
     (md_createCertDir h mm w = (None, wDir) \<and> md_generatePrivateKey h mm wDir = (Inr privateKey, wKey) \<and>
      createMultiDomainCSR h mm privateKey wKey = Inr csr \<and>
      md_obtainCertificate h mm csr wKey = (Inl e, wCert) \<longrightarrow>
        md_Install h mm w = (Some (ObtainCertificateFailed e), wCert)) \<and>
     (md_createCertDir h mm w = (None, wDir) \<and> md_generatePrivateKey h mm wDir = (Inr privateKey, wKey) \<and>
      createMultiDomainCSR h mm privateKey wKey = Inr csr \<and>
      md_obtainCertificate h mm csr wKey = (Inr cert, wCert) \<and>
      md_saveCertificate h mm cert wCert = (Some e, wSaved) \<longrightarrow>
        md_Install h mm w = (Some (SaveCertificateFailed e), wSaved)) \<and>
     (md_createCertDir h mm w = (None, wDir) \<and> md_generatePrivateKey h mm wDir = (Inr privateKey, wKey) \<and>
      createMultiDomainCSR h mm privateKey wKey = Inr csr \<and>
      md_obtainCertificate h mm csr wKey = (Inr cert, wCert) \<and>
      md_saveCertificate h mm cert wCert = (None, wSaved) \<and> configureWebServers mm = Some e \<longrightarrow>
        md_Install h mm w = (Some (ConfigureWebServerFailed e), wSaved) \<and>
        files wSaved (md_getCertPath mm) = Some (PEM ''CERTIFICATE'' cert)))"
proof -
  have s: "saveCertificate h m cert wCert = (None, wSaved) \<Longrightarrow>
      files wSaved (getCertPath m) = Some (PEM ''CERTIFICATE'' cert)"
    by (auto simp: saveCertificate_def os_Create_def pem_Encode_def split: if_splits)
  note ms = md_saveCertificate_NoneD(1)
  show ?thesis
    by (intro conjI impI) (auto simp: Install_def md_Install_def dest: s ms)
qed

lemma stageHost_fails [simp]: "fails (stageHost c) c' w = (c' = c)"
  by (simp add: stageHost_def)

lemma host0_fails [simp]: "fails host0 c w = False"
  by (simp add: host0_def)

lemma exampleManager_fields [simp]:
  "certDir exampleManager = ''/etc/autocert/certs''" "domain exampleManager = ''example.com''"
  "keySize exampleManager = 2048" "challengeType exampleManager = ChallengeWebroot"
  "webServerType exampleManager = WebServerNginx"
  by (simp_all add: exampleManager_def NewManager_def)

lemma badServerManager_fields [simp]:
  "certDir badServerManager = ''/etc/autocert/certs''" "domain badServerManager = ''example.com''"
  "keySize badServerManager = 2048" "challengeType badServerManager = ChallengeWebroot"
  "webServerType badServerManager = 7"
  by (simp_all add: badServerManager_def SetWebServer_def)

lemmas single_steps =
  createCertDir_def generatePrivateKey_def createCSR_def obtainCertificate_def
  obtainCertificateWebroot_def obtainCertificateStandalone_def obtainCertificateDNS_def
  generateSelfSignedCert_def saveCertificate_def configureWebServer_def configureNginx_def
  configureApache_def configureIIS_def getCertPath_def getKeyPath_def sample_paths

theorem Install_errors_abort_witness:
  "fst (Install (stageHost (CallMkdirAll ''/etc/autocert/certs/example.com'')) exampleManager world0)
     = Some (CreateCertDirFailed (Failed (CallMkdirAll ''/etc/autocert/certs/example.com''))) \<and>
   fst (Install (stageHost (CallGenerateKey 2048)) exampleManager world0)
     = Some (GenerateKeyFailed (Failed (CallGenerateKey 2048))) \<and>
   fst (Install (stageHost CallCreateCertificateRequest) exampleManager world0)
     = Some (CreateCSRFailed (Failed CallCreateCertificateRequest)) \<and>
   fst (Install (stageHost CallCreateCertificate) exampleManager world0)
     = Some (ObtainCertificateFailed (Failed CallCreateCertificate)) \<and>
   fst (Install (stageHost (CallCreate ''/etc/autocert/certs/example.com/cert.pem'')) exampleManager world0)
     = Some (SaveCertificateFailed (Failed (CallCreate ''/etc/autocert/certs/example.com/cert.pem''))) \<and>
   (\<exists>w4 cert. Install host0 badServerManager world0
        = (Some (ConfigureWebServerFailed UnsupportedWebServer), w4) \<and>
      files w4 ''/etc/autocert/certs/example.com/cert.pem'' = Some (PEM ''CERTIFICATE'' cert)) \<and>
   (\<exists>w4 cert. md_Install host0 badServerSanManager world0
        = (Some (ConfigureWebServerFailed UnsupportedWebServer), w4) \<and>
      files w4 ''/etc/autocert/certs/a.com_san/cert.pem'' = Some (PEM ''CERTIFICATE'' cert))"
proof -
  let ?m = exampleManager
  let ?dir = "''/etc/autocert/certs/example.com''"
  let ?crt = "''/etc/autocert/certs/example.com/cert.pem''"
  \<comment> \<open>the directory cannot be made\<close>
  have a1: "createCertDir (stageHost (CallMkdirAll ?dir)) ?m world0
      = (Some (Failed (CallMkdirAll ?dir)), world0)"
    by (simp add: single_steps library_calls)
  from Install_errors_abort [where h = "stageHost (CallMkdirAll ?dir)" and m = ?m and w = world0 and wDir = world0 and e = "Failed (CallMkdirAll ?dir)"] a1
  have r1: "fst (Install (stageHost (CallMkdirAll ?dir)) ?m world0)
      = Some (CreateCertDirFailed (Failed (CallMkdirAll ?dir)))"
    by simp
  \<comment> \<open>no key can be generated\<close>
  let ?h2 = "stageHost (CallGenerateKey 2048)"
  obtain w1 where b1: "createCertDir ?h2 ?m world0 = (None, w1)"
    by (simp add: single_steps library_calls)
  have b2: "generatePrivateKey ?h2 ?m w1 = (Inl (Failed (CallGenerateKey 2048)), w1)"
    by (simp add: single_steps library_calls)
  from Install_errors_abort [where h = ?h2 and m = ?m and w = world0 and wDir = w1 and wKey = w1 and e = "Failed (CallGenerateKey 2048)"] b1 b2
  have r2: "fst (Install ?h2 ?m world0) = Some (GenerateKeyFailed (Failed (CallGenerateKey 2048)))"
    by simp
  \<comment> \<open>the request cannot be made\<close>
  let ?h3 = "stageHost CallCreateCertificateRequest"
  obtain w1 where c1: "createCertDir ?h3 ?m world0 = (None, w1)"
    by (simp add: single_steps library_calls)
  obtain k w2 where c2: "generatePrivateKey ?h3 ?m w1 = (Inr k, w2)"
    by (simp add: single_steps library_calls)
  have c3: "createCSR ?h3 ?m k w2 = Inl (Failed CallCreateCertificateRequest)"
    by (simp add: single_steps library_calls)
  from Install_errors_abort [where h = ?h3 and m = ?m and w = world0 and wDir = w1 and wKey = w2 and privateKey = k and e = "Failed CallCreateCertificateRequest"] c1 c2 c3
  have r3: "fst (Install ?h3 ?m world0) = Some (CreateCSRFailed (Failed CallCreateCertificateRequest))"
    by simp
  \<comment> \<open>the certificate cannot be made\<close>
  let ?h4 = "stageHost CallCreateCertificate"
  obtain w1 where d1: "createCertDir ?h4 ?m world0 = (None, w1)"
    by (simp add: single_steps library_calls)
  obtain k w2 where d2: "generatePrivateKey ?h4 ?m w1 = (Inr k, w2)"
    by (simp add: single_steps library_calls)
  obtain csr where d3: "createCSR ?h4 ?m k w2 = Inr csr"
    "csr = PKCS10 \<lparr>reqSubject = ''example.com'', reqDNSNames = [''example.com'']\<rparr>"
    by (simp add: single_steps library_calls)
  obtain w3 where d4: "obtainCertificate ?h4 ?m csr w2 = (Inl (Failed CallCreateCertificate), w3)"
    by (simp add: d3(2) single_steps library_calls Let_def)
  from Install_errors_abort [where h = ?h4 and m = ?m and w = world0 and wDir = w1 and wKey = w2 and privateKey = k and csr = csr and wCert = w3 and e = "Failed CallCreateCertificate"] d1 d2 d3(1) d4
  have r4: "fst (Install ?h4 ?m world0) = Some (ObtainCertificateFailed (Failed CallCreateCertificate))"
    by simp
  \<comment> \<open>the file of the certificate cannot be made\<close>
  let ?h5 = "stageHost (CallCreate ?crt)"
  obtain w1 where e1: "createCertDir ?h5 ?m world0 = (None, w1)"
    by (simp add: single_steps library_calls)
  obtain k w2 where e2: "generatePrivateKey ?h5 ?m w1 = (Inr k, w2)"
    by (simp add: single_steps library_calls)
  obtain csr where e3: "createCSR ?h5 ?m k w2 = Inr csr"
    "csr = PKCS10 \<lparr>reqSubject = ''example.com'', reqDNSNames = [''example.com'']\<rparr>"
    by (simp add: single_steps library_calls)
  obtain cert w3 where e4: "obtainCertificate ?h5 ?m csr w2 = (Inr cert, w3)"
    by (simp add: e3(2) single_steps library_calls Let_def)
  have e5: "saveCertificate ?h5 ?m cert w3 = (Some (Failed (CallCreate ?crt)), w3)"
    by (simp add: single_steps library_calls)
  from Install_errors_abort [where h = ?h5 and m = ?m and w = world0 and wDir = w1 and wKey = w2 and privateKey = k and csr = csr and wCert = w3 and cert = cert and wSaved = w3 and e = "Failed (CallCreate ?crt)"]
    e1 e2 e3(1) e4 e5
  have r5: "fst (Install ?h5 ?m world0) = Some (SaveCertificateFailed (Failed (CallCreate ?crt)))"
    by simp
  \<comment> \<open>the web server type is none of the three\<close>
  let ?b = badServerManager
  obtain w1 where f1: "createCertDir host0 ?b world0 = (None, w1)"
    by (simp add: single_steps library_calls)
  obtain k w2 where f2: "generatePrivateKey host0 ?b w1 = (Inr k, w2)"
    by (simp add: single_steps library_calls)
  obtain csr where f3: "createCSR host0 ?b k w2 = Inr csr"
    "csr = PKCS10 \<lparr>reqSubject = ''example.com'', reqDNSNames = [''example.com'']\<rparr>"
    by (simp add: single_steps library_calls)
  obtain cert w3 where f4: "obtainCertificate host0 ?b csr w2 = (Inr cert, w3)"
    by (simp add: f3(2) single_steps library_calls Let_def)
  obtain w4 where f5: "saveCertificate host0 ?b cert w3 = (None, w4)"
    by (simp add: single_steps library_calls)
  have f6: "configureWebServer ?b = Some UnsupportedWebServer"
    by (simp add: single_steps)
  have f7: "getCertPath ?b = ?crt"
    by (simp add: single_steps)
  from Install_errors_abort [where h = host0 and m = ?b and w = world0 and wDir = w1 and wKey = w2 and privateKey = k and csr = csr and wCert = w3 and cert = cert and wSaved = w4 and e = UnsupportedWebServer]
    f1 f2 f3(1) f4 f5 f6 f7
  have r6: "\<exists>w4 cert. Install host0 ?b world0 = (Some (ConfigureWebServerFailed UnsupportedWebServer), w4) \<and>
      files w4 ?crt = Some (PEM ''CERTIFICATE'' cert)"
    by auto
  \<comment> \<open>the same for the manager of several domains\<close>
  let ?s = badServerSanManager
  let ?scrt = "''/etc/autocert/certs/a.com_san/cert.pem''"
  have g0: "\<not> (hasWildcardDomain ?s \<and> md_challengeType ?s \<noteq> ChallengeDNS)"
    by (simp add: badServerSanManager_def sanManager_def md_SetWebServer_def)
  obtain w1 where g1: "md_createCertDir host0 ?s world0 = (None, w1)"
    by (simp add: md_Install_steps library_calls Let_def)
  obtain k w2 where g2: "md_generatePrivateKey host0 ?s w1 = (Inr k, w2)"
    by (simp add: md_Install_steps library_calls Let_def)
  obtain csr where g3: "createMultiDomainCSR host0 ?s k w2 = Inr csr"
    "csr = PKCS10 \<lparr>reqSubject = primaryDomain ?s, reqDNSNames = domains ?s\<rparr>"
    by (simp add: md_Install_steps library_calls)
  have g: "md_challengeType ?s = ChallengeDNS"
    by (simp add: badServerSanManager_def sanManager_def md_SetWebServer_def)
  obtain cert w3 where g4: "md_obtainCertificate host0 ?s csr w2 = (Inr cert, w3)"
    by (simp add: g3(2) g md_obtainCertificate_def md_obtainCertificateDNS_def
        generateMultiDomainSelfSignedCert_def library_calls Let_def)
  obtain w4 where g5: "md_saveCertificate host0 ?s cert w3 = (None, w4)"
    by (simp add: md_saveCertificate_def library_calls)
  have g6: "configureWebServers ?s = Some UnsupportedWebServer"
    by (simp add: configureWebServers_def badServerSanManager_def sanManager_def md_SetWebServer_def)
  have g7: "md_getCertPath ?s = ?scrt"
    by (simp add: md_getCertPath_def sample_paths badServerSanManager_def sanManager_def
        md_SetWebServer_def)
  from Install_errors_abort [where h = host0 and mm = ?s and w = world0 and wDir = w1
      and wKey = w2 and privateKey = k and csr = csr and wCert = w3 and cert = cert
      and wSaved = w4 and e = UnsupportedWebServer]
    g0 g1 g2 g3(1) g4 g5 g6 g7
  have r7: "\<exists>w4 cert. md_Install host0 ?s world0
        = (Some (ConfigureWebServerFailed UnsupportedWebServer), w4) \<and>
      files w4 ?scrt = Some (PEM ''CERTIFICATE'' cert)"
    by auto
  from r1 r2 r3 r4 r5 r6 r7 show ?thesis by blast
qed

section \<open>Renewal\<close>

lemma Sub_threshold: "(720 * Hour < Sub t u) = (720 * Hour < t - u)"
  by (simp add: Sub_def Let_def maxDuration_def minDuration_def Hour_def)

lemma paths_distinct: "getKeyPath m \<noteq> getCertPath m"
  by (simp add: getKeyPath_def getCertPath_def filepath_Join3_child child_inject)

lemma generatePrivateKey_key:
  "generatePrivateKey h m w = (Inr privateKey, w') \<Longrightarrow>
   privateKey = PrivateKey (keySize m) (draws w) \<and>
   w' = w\<lparr>files := (files w)(getKeyPath m \<mapsto> PEM ''RSA PRIVATE KEY'' (PKCS1 privateKey)),
          draws := Suc (draws w)\<rparr>"
  by (auto simp: generatePrivateKey_def rsa_GenerateKey_def os_Create_def pem_Encode_def
      os_Chmod_def split: if_splits)

lemma Install_effect:
  assumes "Install h m w = (None, w')"
  shows "w' = w\<lparr>dirs := insert (filepath_Join [certDir m, domain m]) (dirs w),
       files := (files w)
         (getKeyPath m \<mapsto> PEM ''RSA PRIVATE KEY'' (PKCS1 (PrivateKey (keySize m) (draws w))),
          getCertPath m \<mapsto> PEM ''CERTIFICATE''
            (X509 \<lparr>Subject = domain m, DNSNames = [domain m],
                   NotBefore = toSeconds (clock h (reads w)),
                   NotAfter = toSeconds (clock h (Suc (reads w)) + 90 * 24 * Hour)\<rparr>)),
       reads := reads w + 2, draws := draws w + 2\<rparr>"
proof -
  from Install_NoneD [OF assms] obtain w1 privateKey w2 csr cert w3 where
    s1: "createCertDir h m w = (None, w1)" and
    s2: "generatePrivateKey h m w1 = (Inr privateKey, w2)" and
    s3: "createCSR h m privateKey w2 = Inr csr" and
    s4: "obtainCertificate h m csr w2 = (Inr cert, w3)" and
    s5: "saveCertificate h m cert w3 = (None, w')" by blast
  note d1 = createCertDir_NoneD [OF s1]
  note d2 = generatePrivateKey_key [OF s2]
  note d3 = createCSR_InrD [OF s3]
  from obtainCertificate_InrD [OF s4] d3
  have "generateSelfSignedCert h (PKCS10 \<lparr>reqSubject = domain m, reqDNSNames = [domain m]\<rparr>) w2 = (Inr cert, w3)"
    by simp
  note d4 = generateSelfSignedCert_InrD [OF this]
  note d5 = saveCertificate_NoneD [OF s5]
  show ?thesis
    unfolding d5 using d4 d2 d1 by simp
qed

text \<open>
  C2. Let a certificate be stored and readable. \<^verbatim>\<open>Renew\<close> reads the clock twice, in
  \<^verbatim>\<open>GetCertInfo\<close> and in \<^verbatim>\<open>time.Until\<close>. When \<open>NotAfter\<close> is more than 30 days after
  the second reading, it returns no error and only the count of the readings has
  changed: no file, no directory, no key. Otherwise it is \<^verbatim>\<open>Install\<close> from there, and
  when that returns no error the machine is the old one with the directory of the
  domain made, a new key written over the file of the key, a new certificate for 90
  days from then written over the file of the certificate, and two keys drawn (the
  second by the stand-in for the certificate authority); every other file is as it was.
\<close>

theorem Renew_threshold:
  assumes "files w (getCertPath m) = Some (PEM ty (X509 cert))"
    and "\<not> fails h (CallReadFile (getCertPath m)) w"
  shows "(NotAfter cert - clock h (Suc (reads w)) > 30 * 24 * Hour \<longrightarrow>
            Renew h m w = (None, w\<lparr>reads := reads w + 2\<rparr>)) \<and>
         (NotAfter cert - clock h (Suc (reads w)) \<le> 30 * 24 * Hour \<longrightarrow>
            Renew h m w = Install h m (w\<lparr>reads := reads w + 2\<rparr>) \<and>
            (Renew h m w = (None, w') \<longrightarrow>
               w' = w\<lparr>dirs := insert (filepath_Join [certDir m, domain m]) (dirs w),
                  files := (files w)
                    (getKeyPath m \<mapsto>
                       PEM ''RSA PRIVATE KEY'' (PKCS1 (PrivateKey (keySize m) (draws w))),
                     getCertPath m \<mapsto> PEM ''CERTIFICATE''
                       (X509 \<lparr>Subject = domain m, DNSNames = [domain m],
                              NotBefore = toSeconds (clock h (reads w + 2)),
                              NotAfter = toSeconds (clock h (reads w + 3) + 90 * 24 * Hour)\<rparr>)),
                  reads := reads w + 4, draws := draws w + 2\<rparr> \<and>
               files w' (getKeyPath m)
                 = Some (PEM ''RSA PRIVATE KEY'' (PKCS1 (PrivateKey (keySize m) (draws w))))))"
proof -
  let ?w2 = "w\<lparr>reads := reads w + 2\<rparr>"
  have r: "Renew h m w =
      (if NotAfter cert - clock h (Suc (reads w)) > 30 * 24 * Hour then (None, ?w2)
       else Install h m ?w2)"
    by (simp add: Renew_def GetCertInfo_stored [OF assms] time_Until_def time_Now_def Sub_threshold)
  have e: "w' = w\<lparr>dirs := insert (filepath_Join [certDir m, domain m]) (dirs w),
                  files := (files w)
                    (getKeyPath m \<mapsto>
                       PEM ''RSA PRIVATE KEY'' (PKCS1 (PrivateKey (keySize m) (draws w))),
                     getCertPath m \<mapsto> PEM ''CERTIFICATE''
                       (X509 \<lparr>Subject = domain m, DNSNames = [domain m],
                              NotBefore = toSeconds (clock h (reads w + 2)),
                              NotAfter = toSeconds (clock h (reads w + 3) + 90 * 24 * Hour)\<rparr>)),
                  reads := reads w + 4, draws := draws w + 2\<rparr> \<and>
               files w' (getKeyPath m)
                 = Some (PEM ''RSA PRIVATE KEY'' (PKCS1 (PrivateKey (keySize m) (draws w))))"
    if "Install h m ?w2 = (None, w')"
    using Install_effect [OF that] paths_distinct [of m]
    by (simp add: numeral_3_eq_3 numeral_2_eq_2)
  from r e show ?thesis by simp
qed


lemma Install_host0: "fst (Install host0 exampleManager w) = None"
  by (simp add: Install_steps library_calls host0_def exampleManager_def NewManager_def Let_def)

theorem Renew_threshold_witness:
  "files (renewWorld (30 * Day + 1)) (getCertPath exampleManager)
     = Some (PEM ''CERTIFICATE'' (X509 (exampleCert (1690000000 * Second) (clock host0 1 + (30 * Day + 1))))) \<and>
   \<not> fails host0 (CallReadFile (getCertPath exampleManager)) (renewWorld (30 * Day + 1)) \<and>
   Renew host0 exampleManager (renewWorld (30 * Day + 1)) = (None, renewWorld (30 * Day + 1)\<lparr>reads := 2\<rparr>) \<and>
   (\<exists>w'. Renew host0 exampleManager (renewWorld (30 * Day)) = (None, w') \<and>
      files w' ''/etc/autocert/certs/example.com/cert.pem''
        = Some (PEM ''CERTIFICATE'' (X509 (exampleCert (1700000000 * Second) (1707776000 * Second)))) \<and>
      files w' ''/etc/autocert/certs/example.com/key.pem''
        = Some (PEM ''RSA PRIVATE KEY'' (PKCS1 (PrivateKey 2048 0))) \<and>
      draws w' = 2)"
proof -
  have f: "files (renewWorld left) (getCertPath exampleManager)
     = Some (PEM ''CERTIFICATE'' (X509 (exampleCert (1690000000 * Second) (clock host0 1 + left))))" for left
    by (simp add: renewWorld_def storedWorld_def exampleManager_paths)
  have r: "\<not> fails host0 (CallReadFile (getCertPath exampleManager)) (renewWorld left)" for left
    by (simp add: host0_def)
  have z: "reads (renewWorld left) = 0" "draws (renewWorld left) = 0" for left
    by (simp_all add: renewWorld_def storedWorld_def world0_def)
  from Renew_threshold [OF f r, of "30 * Day + 1"]
  have a: "Renew host0 exampleManager (renewWorld (30 * Day + 1))
      = (None, renewWorld (30 * Day + 1)\<lparr>reads := 2\<rparr>)"
    by (simp add: z exampleCert_def Day_def Hour_def numeral_2_eq_2)
  have due: "NotAfter (exampleCert (1690000000 * Second) (clock host0 1 + 30 * Day))
      - clock host0 (Suc (reads (renewWorld (30 * Day)))) \<le> 30 * 24 * Hour"
    by (simp add: z exampleCert_def Day_def Hour_def)
  obtain w' where i: "Install host0 exampleManager (renewWorld (30 * Day)\<lparr>reads := reads (renewWorld (30 * Day)) + 2\<rparr>) = (None, w')"
    using Install_host0 [of "renewWorld (30 * Day)\<lparr>reads := reads (renewWorld (30 * Day)) + 2\<rparr>"]
    by (cases "Install host0 exampleManager (renewWorld (30 * Day)\<lparr>reads := reads (renewWorld (30 * Day)) + 2\<rparr>)") auto
  from Renew_threshold [OF f r, of "30 * Day" w'] due i
  have b: "Renew host0 exampleManager (renewWorld (30 * Day)) = (None, w')"
    and c: "w' = renewWorld (30 * Day)
        \<lparr>dirs := insert (filepath_Join [certDir exampleManager, domain exampleManager])
            (dirs (renewWorld (30 * Day))),
         files := (files (renewWorld (30 * Day)))
           (getKeyPath exampleManager \<mapsto>
              PEM ''RSA PRIVATE KEY'' (PKCS1 (PrivateKey (keySize exampleManager) (draws (renewWorld (30 * Day))))),
            getCertPath exampleManager \<mapsto> PEM ''CERTIFICATE''
              (X509 \<lparr>Subject = domain exampleManager, DNSNames = [domain exampleManager],
                     NotBefore = toSeconds (clock host0 (reads (renewWorld (30 * Day)) + 2)),
                     NotAfter = toSeconds (clock host0 (reads (renewWorld (30 * Day)) + 3) + 90 * 24 * Hour)\<rparr>)),
         reads := reads (renewWorld (30 * Day)) + 4, draws := draws (renewWorld (30 * Day)) + 2\<rparr>"
    by simp_all
  have d: "files w' ''/etc/autocert/certs/example.com/cert.pem''
        = Some (PEM ''CERTIFICATE'' (X509 (exampleCert (1700000000 * Second) (1707776000 * Second))))"
    "files w' ''/etc/autocert/certs/example.com/key.pem''
        = Some (PEM ''RSA PRIVATE KEY'' (PKCS1 (PrivateKey 2048 0)))"
    "draws w' = 2"
    unfolding c
    by (simp_all add: z exampleManager_paths exampleCert_def
        toSeconds_def host0_def Hour_def Second_def)
  from f [of "30 * Day + 1"] r [of "30 * Day + 1"] a b d show ?thesis by blast
qed

section \<open>The layout of the store\<close>

lemma md_Install_NoneD:
  assumes "md_Install h m w = (None, w')"
  shows "\<exists>w1 privateKey w2 csr cert w3.
     md_createCertDir h m w = (None, w1) \<and> md_generatePrivateKey h m w1 = (Inr privateKey, w2) \<and>
     createMultiDomainCSR h m privateKey w2 = Inr csr \<and>
     md_obtainCertificate h m csr w2 = (Inr cert, w3) \<and>
     md_saveCertificate h m cert w3 = (None, w') \<and> configureWebServers m = None"
  using assms
  by (auto simp: md_Install_def split: prod.splits option.splits sum.splits if_splits)

lemma md_dirName:
  assumes "NewMultiDomainManager certRoot ds e = Some m"
  shows "primaryDomain m = ds ! 0" and "md_certDir m = certRoot" and "domains m = ds"
    and "ds \<noteq> []"
  using assms by (cases ds; auto simp: NewMultiDomainManager_def)+

lemma md_createCertDir_NoneD:
  "md_createCertDir h m w = (None, w') \<Longrightarrow>
   \<exists>dir. md_createCertDir h m w = os_MkdirAll h dir w \<and> w' = w\<lparr>dirs := insert dir (dirs w)\<rparr>"
  by (auto simp: md_createCertDir_def os_MkdirAll_def Let_def split: if_splits)

lemma md_generatePrivateKey_InrD:
  "md_generatePrivateKey h m w = (Inr privateKey, w') \<Longrightarrow>
   w' = w\<lparr>files := (files w)(md_getKeyPath m \<mapsto> PEM ''RSA PRIVATE KEY'' (PKCS1 privateKey)),
          draws := Suc (draws w)\<rparr>"
  by (auto simp: md_generatePrivateKey_def rsa_GenerateKey_def os_Create_def pem_Encode_def
      os_Chmod_def split: if_splits)

lemma generateMultiDomainSelfSignedCert_InrD:
  "generateMultiDomainSelfSignedCert h csr w = (Inr cert, w') \<Longrightarrow>
   files w' = files w \<and> dirs w' = dirs w"
  by (auto simp: generateMultiDomainSelfSignedCert_def time_Now_def rsa_GenerateKey_def
      Let_def split: if_splits sum.splits)

lemma md_obtainCertificate_InrD:
  "md_obtainCertificate h m csr w = (Inr cert, w') \<Longrightarrow> files w' = files w \<and> dirs w' = dirs w"
  by (auto simp: md_obtainCertificate_def md_obtainCertificateWebroot_def
      md_obtainCertificateStandalone_def md_obtainCertificateDNS_def
      dest: generateMultiDomainSelfSignedCert_InrD split: if_splits)

lemma md_reachable:
  assumes "NewMultiDomainManager certRoot ds e = Some m0"
    and "mm = md_SetWebServer (md_SetWebrootPath (md_SetChallengeType m0 ct) wp) st"
  shows "primaryDomain mm = ds ! 0" and "md_certDir mm = certRoot" and "domains mm = ds"
    and "ds \<noteq> []"
  using md_dirName [OF assms(1)] assms(2)
  by (simp_all add: md_SetWebServer_def md_SetWebrootPath_def md_SetChallengeType_def)

text \<open>
  C6. Let the manager of a domain set come from the constructor and the three setters.
  It keeps its files in the directory that \<^verbatim>\<open>filepath.Join\<close> makes of the certificate
  root and the name of the store: the primary domain, with \<^verbatim>\<open>_san\<close> appended when the
  set has more than one domain. \<^verbatim>\<open>cert.pem\<close>, \<^verbatim>\<open>key.pem\<close>, \<^verbatim>\<open>chain.pem\<close> and
  \<^verbatim>\<open>domains.txt\<close> are the files of these names inside it, and the directory is the
  one of that name inside the root when the name is a plain element of a path. The
  same holds of every single-domain manager, with its domain as the name. After an
  installation by the multi-domain manager on a host where the write of
  \<^verbatim>\<open>domains.txt\<close> does not fail, the directory exists, key and certificate are there,
  and \<^verbatim>\<open>domains.txt\<close> holds the domains joined by line feeds: split at the line feeds
  it is the list of the domains in the order given.
\<close>

theorem store_layout:
  assumes "NewMultiDomainManager certRoot ds e = Some m0"
    and "mm = md_SetWebServer (md_SetWebrootPath (md_SetChallengeType m0 ct) wp) st"
  shows "(length ds = 1 \<longrightarrow> storeDirName ds = ds ! 0) \<and>
     (length ds > 1 \<longrightarrow> storeDirName ds = ds ! 0 @ ''_san'') \<and>
     md_createCertDir h mm w = os_MkdirAll h (filepath_Join [certRoot, storeDirName ds]) w \<and>
     md_getCertPath mm = child (filepath_Join [certRoot, storeDirName ds]) ''cert.pem'' \<and>
     md_getKeyPath mm = child (filepath_Join [certRoot, storeDirName ds]) ''key.pem'' \<and>
     md_getChainPath mm = child (filepath_Join [certRoot, storeDirName ds]) ''chain.pem'' \<and>
     getDomainsListPath mm = child (filepath_Join [certRoot, storeDirName ds]) ''domains.txt'' \<and>
     (plain (storeDirName ds) \<longrightarrow>
        filepath_Join [certRoot, storeDirName ds] = child (filepath_Join [certRoot]) (storeDirName ds)) \<and>
     createCertDir h sm w = os_MkdirAll h (filepath_Join [certDir sm, storeDirName [domain sm]]) w \<and>
     getCertPath sm = child (filepath_Join [certDir sm, storeDirName [domain sm]]) ''cert.pem'' \<and>
     getKeyPath sm = child (filepath_Join [certDir sm, storeDirName [domain sm]]) ''key.pem'' \<and>
     getChainPath sm = child (filepath_Join [certDir sm, storeDirName [domain sm]]) ''chain.pem'' \<and>
     (plain (domain sm) \<longrightarrow>
        filepath_Join [certDir sm, storeDirName [domain sm]]
          = child (filepath_Join [certDir sm]) (domain sm)) \<and>
     (md_Install h mm w = (None, w') \<and> (\<forall>v. \<not> fails h (CallWriteFile (getDomainsListPath mm)) v) \<longrightarrow>
        filepath_Join [certRoot, storeDirName ds] \<in> dirs w' \<and>
        files w' (getDomainsListPath mm) = Some (Raw (Join ds [CHR 0x0A])) \<and>
        (\<exists>key. files w' (md_getKeyPath mm) = Some (PEM ''RSA PRIVATE KEY'' key)) \<and>
        (\<exists>cert. files w' (md_getCertPath mm) = Some (PEM ''CERTIFICATE'' cert))) \<and>
     ((\<forall>x\<in>set ds. CHR 0x0A \<notin> set x) \<longrightarrow> Split (Join ds [CHR 0x0A]) (CHR 0x0A) = ds)"
proof -
  note n = md_reachable [OF assms]
  have names: "(length ds = 1 \<longrightarrow> storeDirName ds = ds ! 0) \<and>
     (length ds > 1 \<longrightarrow> storeDirName ds = ds ! 0 @ ''_san'')"
    by (simp add: storeDirName_def)
  have mk: "md_createCertDir h mm w = os_MkdirAll h (filepath_Join [certRoot, storeDirName ds]) w" for w
    using n by (simp add: md_createCertDir_def storeDirName_def)
  have paths: "md_getCertPath mm = child (filepath_Join [certRoot, storeDirName ds]) ''cert.pem''"
    "md_getKeyPath mm = child (filepath_Join [certRoot, storeDirName ds]) ''key.pem''"
    "md_getChainPath mm = child (filepath_Join [certRoot, storeDirName ds]) ''chain.pem''"
    "getDomainsListPath mm = child (filepath_Join [certRoot, storeDirName ds]) ''domains.txt''"
    using n
    by (simp_all add: md_getCertPath_def md_getKeyPath_def md_getChainPath_def
        getDomainsListPath_def storeDirName_def filepath_Join3_child)
  have named: "plain x \<Longrightarrow> filepath_Join [r, x] = child (filepath_Join [r]) x" for r x
    by (rule filepath_Join2_child)
  have single: "createCertDir h sm w = os_MkdirAll h (filepath_Join [certDir sm, storeDirName [domain sm]]) w"
    "getCertPath sm = child (filepath_Join [certDir sm, storeDirName [domain sm]]) ''cert.pem''"
    "getKeyPath sm = child (filepath_Join [certDir sm, storeDirName [domain sm]]) ''key.pem''"
    "getChainPath sm = child (filepath_Join [certDir sm, storeDirName [domain sm]]) ''chain.pem''"
    by (simp_all add: createCertDir_def getCertPath_def getKeyPath_def getChainPath_def
        storeDirName_def filepath_Join3_child)
  have sname: "storeDirName [domain sm] = domain sm"
    by (simp add: storeDirName_def)
  have written: "filepath_Join [certRoot, storeDirName ds] \<in> dirs w' \<and>
        files w' (getDomainsListPath mm) = Some (Raw (Join ds [CHR 0x0A])) \<and>
        (\<exists>key. files w' (md_getKeyPath mm) = Some (PEM ''RSA PRIVATE KEY'' key)) \<and>
        (\<exists>cert. files w' (md_getCertPath mm) = Some (PEM ''CERTIFICATE'' cert))"
    if i: "md_Install h mm w = (None, w')"
      and nf: "\<forall>v. \<not> fails h (CallWriteFile (getDomainsListPath mm)) v"
  proof -
    from md_Install_NoneD [OF i] obtain w1 privateKey w2 csr cert w3 where
      s1: "md_createCertDir h mm w = (None, w1)" and
      s2: "md_generatePrivateKey h mm w1 = (Inr privateKey, w2)" and
      s4: "md_obtainCertificate h mm csr w2 = (Inr cert, w3)" and
      s5: "md_saveCertificate h mm cert w3 = (None, w')" by blast
    from s1 mk [of w] have d1: "filepath_Join [certRoot, storeDirName ds] \<in> dirs w1"
      by (auto simp: os_MkdirAll_def split: if_splits)
    note d2 = md_generatePrivateKey_InrD [OF s2]
    note d4 = md_obtainCertificate_InrD [OF s4]
    note d5 = md_saveCertificate_NoneD [OF s5]
    from d1 d2 d4 d5(4) have "filepath_Join [certRoot, storeDirName ds] \<in> dirs w'" by simp
    moreover from d5(3) nf n have "files w' (getDomainsListPath mm) = Some (Raw (Join ds [CHR 0x0A]))"
      by simp
    moreover from d2 d4 d5(2) have "files w' (md_getKeyPath mm) = Some (PEM ''RSA PRIVATE KEY'' (PKCS1 privateKey))"
      by simp
    moreover note d5(1)
    ultimately show ?thesis by blast
  qed
  have lines: "Split (Join ds [CHR 0x0A]) (CHR 0x0A) = ds" if "\<forall>x\<in>set ds. CHR 0x0A \<notin> set x"
    using Split_Join [of ds "CHR 0x0A"] n that by blast
  from names mk [of w] paths named [of "storeDirName ds" certRoot] single
    named [of "domain sm" "certDir sm"] sname written lines
  show ?thesis by simp
qed


theorem store_layout_witness:
  "NewMultiDomainManager ''/etc/autocert/certs'' [''example.com'', ''*.example.com'']
      ''admin@example.com'' = Some (md_SetChallengeType wildcardSanManager ChallengeWebroot) \<and>
   wildcardSanManager
     = md_SetWebServer (md_SetWebrootPath (md_SetChallengeType
         (md_SetChallengeType wildcardSanManager ChallengeWebroot) ChallengeDNS) []) WebServerNginx \<and>
   md_getCertPath wildcardSanManager = ''/etc/autocert/certs/example.com_san/cert.pem'' \<and>
   md_getKeyPath wildcardSanManager = ''/etc/autocert/certs/example.com_san/key.pem'' \<and>
   md_getChainPath wildcardSanManager = ''/etc/autocert/certs/example.com_san/chain.pem'' \<and>
   getDomainsListPath wildcardSanManager = ''/etc/autocert/certs/example.com_san/domains.txt'' \<and>
   plain ''example.com_san'' \<and>
   filepath_Join [''/etc/autocert/certs'', ''example.com_san'']
     = ''/etc/autocert/certs/example.com_san'' \<and>
   plain ''example.com'' \<and>
   filepath_Join [''/etc/autocert/certs'', ''example.com''] = ''/etc/autocert/certs/example.com'' \<and>
   getCertPath exampleManager = ''/etc/autocert/certs/example.com/cert.pem'' \<and>
   getKeyPath exampleManager = ''/etc/autocert/certs/example.com/key.pem'' \<and>
   getChainPath exampleManager = ''/etc/autocert/certs/example.com/chain.pem'' \<and>
   (\<exists>w'. md_Install host0 wildcardSanManager world0 = (None, w') \<and>
      ''/etc/autocert/certs/example.com_san'' \<in> dirs w' \<and>
      files w' ''/etc/autocert/certs/example.com_san/domains.txt''
        = Some (Raw (''example.com'' @ [CHR 0x0A] @ ''*.example.com''))) \<and>
   Split (''example.com'' @ [CHR 0x0A] @ ''*.example.com'') (CHR 0x0A)
     = [''example.com'', ''*.example.com'']"
proof -
  let ?ds = "[''example.com'', ''*.example.com'']"
  let ?m0 = "md_SetChallengeType wildcardSanManager ChallengeWebroot"
  have new: "NewMultiDomainManager ''/etc/autocert/certs'' ?ds ''admin@example.com'' = Some ?m0"
    by (simp add: NewMultiDomainManager_def wildcardSanManager_def md_SetChallengeType_def)
  have mm: "wildcardSanManager
     = md_SetWebServer (md_SetWebrootPath (md_SetChallengeType ?m0 ChallengeDNS) []) WebServerNginx"
    by (simp add: wildcardSanManager_def md_SetChallengeType_def md_SetWebrootPath_def
        md_SetWebServer_def)
  have nm: "storeDirName ?ds = ''example.com_san''" "storeDirName [''example.com''] = ''example.com''"
    by (simp_all add: storeDirName_def)
  have pl: "plain ''example.com_san''" "plain ''example.com''"
    by (simp_all add: plain_def)
  have ch: "child ''/etc/autocert/certs/example.com_san'' ''cert.pem'' = ''/etc/autocert/certs/example.com_san/cert.pem''"
    "child ''/etc/autocert/certs/example.com_san'' ''key.pem'' = ''/etc/autocert/certs/example.com_san/key.pem''"
    "child ''/etc/autocert/certs/example.com_san'' ''chain.pem'' = ''/etc/autocert/certs/example.com_san/chain.pem''"
    "child ''/etc/autocert/certs/example.com_san'' ''domains.txt'' = ''/etc/autocert/certs/example.com_san/domains.txt''"
    "child ''/etc/autocert/certs/example.com'' ''cert.pem'' = ''/etc/autocert/certs/example.com/cert.pem''"
    "child ''/etc/autocert/certs/example.com'' ''key.pem'' = ''/etc/autocert/certs/example.com/key.pem''"
    "child ''/etc/autocert/certs/example.com'' ''chain.pem'' = ''/etc/autocert/certs/example.com/chain.pem''"
    "child ''/etc/autocert/certs'' ''example.com_san'' = ''/etc/autocert/certs/example.com_san''"
    "child ''/etc/autocert/certs'' ''example.com'' = ''/etc/autocert/certs/example.com''"
    by (simp_all add: child_def)
  have flds: "certDir exampleManager = ''/etc/autocert/certs''" "domain exampleManager = ''example.com''"
    by (simp_all add: exampleManager_def NewManager_def)
  have "fst (md_Install host0 wildcardSanManager world0) = None"
    by (simp add: md_Install_steps library_calls wildcardSanManager_def HasPrefix_def Let_def host0_def)
  then obtain w' where i: "md_Install host0 wildcardSanManager world0 = (None, w')"
    by (cases "md_Install host0 wildcardSanManager world0") auto
  have nf: "\<forall>v. \<not> fails host0 (CallWriteFile (getDomainsListPath wildcardSanManager)) v"
    by (simp add: host0_def)
  have nl: "\<forall>x\<in>set ?ds. CHR 0x0A \<notin> set x"
    by simp
  from store_layout [OF new mm, of host0 world0 exampleManager w'] i nf nl new mm pl
  show ?thesis
    by (auto simp: nm flds sample_paths ch)
qed

section \<open>The block tracker of the Nginx configurator\<close>

lemma anyBlock_Cons:
  "anyBlock d (l # ls) =
     ((opens l \<and> leftByBrace ls \<and> blockHasBoth d (takeWhile inside ls)) \<or> anyBlock d ls)"
  by (auto simp: anyBlock_def)

lemma scanConfig_blocks:
  "scanConfig d True ssl nm ls =
     (((ssl \<or> list_ex sslLine (takeWhile inside ls)) \<and>
       (nm \<or> list_ex (nameLine d) (takeWhile inside ls)) \<and> leftByBrace ls) \<or> anyBlock d ls)
   \<and> scanConfig d False ssl nm ls = anyBlock d ls"
proof (induction ls arbitrary: ssl nm)
  case Nil
  show ?case by (simp add: leftByBrace_def anyBlock_def)
next
  case (Cons l ls)
  note IH1 = Cons.IH [THEN conjunct1]
  note IH2 = Cons.IH [THEN conjunct2]
  consider (o) "opens l" | (c) "closes l" | (i) "inside l"
    by (auto simp: inside_def)
  then show ?case
  proof cases
    case o
    then have n: "\<not> inside l" "\<not> closes l" by (auto simp: inside_def closes_def)
    from o have s: "scanConfig d b ssl nm (l # ls) = scanConfig d True False False ls" for b
      by (simp add: opens_def Let_def)
    show ?thesis
      using o n by (auto simp: s IH1 anyBlock_Cons leftByBrace_def blockHasBoth_def simp del: scanConfig.simps)
  next
    case c
    then have n: "\<not> inside l" "\<not> opens l" by (auto simp: inside_def closes_def)
    from c have s: "scanConfig d True ssl nm (l # ls) = (if ssl \<and> nm then True else scanConfig d False ssl nm ls)"
      "scanConfig d False ssl nm (l # ls) = scanConfig d False ssl nm ls"
      by (simp_all add: opens_def closes_def Let_def)
    show ?thesis
      using c n by (auto simp: s IH2 anyBlock_Cons leftByBrace_def simp del: scanConfig.simps)
  next
    case i
    then have n: "\<not> closes l" "\<not> opens l" by (auto simp: inside_def)
    then have k: "\<not> Contains (TrimSpace l) ''server {''" "\<not> Contains (TrimSpace l) ''}''"
      by (auto simp: opens_def closes_def)
    have s: "scanConfig d True ssl nm (l # ls) = scanConfig d True (ssl \<or> sslLine l) (nm \<or> nameLine d l) ls"
      "scanConfig d False ssl nm (l # ls) = scanConfig d False ssl nm ls"
      using k by (auto simp add: Let_def sslLine_def nameLine_def)
    show ?thesis
      using i n by (auto simp: s IH1 IH2 anyBlock_Cons leftByBrace_def simp del: scanConfig.simps)
  qed
qed

lemma checkSSLInConfig_Some:
  "checkSSLInConfig (Some ls) d = list_ex (blockHasBoth d) (trackedBlocks ls)"
  by (simp add: checkSSLInConfig_def scanConfig_blocks anyBlock_def)

lemma IsSSLEnabled_iff:
  "IsSSLEnabled configFiles d = (\<exists>configFile\<in>set configFiles. checkSSLInConfig configFile d)"
  by (induction configFiles) auto

text \<open>
  C9. \<^verbatim>\<open>checkSSLInConfig\<close> returns true exactly when some tracked block (entered on
  a line that contains \<^verbatim>\<open>server {\<close>, left on a line with a closing brace) has in its
  body both a line with \<^verbatim>\<open>ssl_certificate\<close> and a line with \<^verbatim>\<open>server_name\<close> and the
  domain. So when the two appear only in different blocks, no block having both, the
  file reports no SSL, and \<^verbatim>\<open>IsSSLEnabled\<close> is false when this holds of every file
  that can be opened.
\<close>

theorem IsSSLEnabled_blocks:
  "checkSSLInConfig None d = False \<and>
   checkSSLInConfig (Some ls) d = (\<exists>body\<in>set (trackedBlocks ls). blockHasBoth d body) \<and>
   IsSSLEnabled configFiles d =
     (\<exists>ls. Some ls \<in> set configFiles \<and> (\<exists>body\<in>set (trackedBlocks ls). blockHasBoth d body)) \<and>
   ((\<forall>ls. Some ls \<in> set configFiles \<longrightarrow> (\<forall>body\<in>set (trackedBlocks ls). \<not> blockHasBoth d body))
      \<longrightarrow> IsSSLEnabled configFiles d = False)"
proof -
  have n: "checkSSLInConfig None d = False"
    by (simp add: checkSSLInConfig_def)
  have s: "checkSSLInConfig (Some ls) d = (\<exists>body\<in>set (trackedBlocks ls). blockHasBoth d body)" for ls
    by (simp add: checkSSLInConfig_Some list_ex_iff)
  have e: "IsSSLEnabled configFiles d =
     (\<exists>ls. Some ls \<in> set configFiles \<and> (\<exists>body\<in>set (trackedBlocks ls). blockHasBoth d body))"
  proof -
    have "(\<exists>configFile\<in>set configFiles. checkSSLInConfig configFile d) =
       (\<exists>ls. Some ls \<in> set configFiles \<and> checkSSLInConfig (Some ls) d)"
      using n by (metis option.exhaust)
    then show ?thesis by (simp add: IsSSLEnabled_iff s)
  qed
  from n s e show ?thesis by blast
qed

theorem IsSSLEnabled_blocks_witness:
  "list_ex sslLine (trackedBlocks splitConfig ! 0) \<and>
   list_ex (nameLine ''example.com'') (trackedBlocks splitConfig ! 1) \<and>
   \<not> anyBlock ''example.com'' splitConfig \<and>
   IsSSLEnabled [Some splitConfig] ''example.com'' = False \<and>
   anyBlock ''example.com'' sslConfig \<and>
   IsSSLEnabled [Some sslConfig] ''example.com''"
proof -
  have t: "trackedBlocks splitConfig =
     [[''    listen 443 ssl;'', ''    server_name other.example.org;'',
       ''    ssl_certificate /etc/autocert/certs/other.example.org/cert.pem;''],
      [''    listen 80;'', ''    server_name example.com;'']]"
    by code_simp
  have a: "list_ex sslLine (trackedBlocks splitConfig ! 0)"
    unfolding t by code_simp
  have b: "list_ex (nameLine ''example.com'') (trackedBlocks splitConfig ! 1)"
    unfolding t by code_simp
  have c: "\<forall>body\<in>set (trackedBlocks splitConfig). \<not> blockHasBoth ''example.com'' body"
    unfolding t by code_simp
  then have c': "\<forall>ls. Some ls \<in> set [Some splitConfig] \<longrightarrow>
      (\<forall>body\<in>set (trackedBlocks ls). \<not> blockHasBoth ''example.com'' body)"
    by simp
  have d: "\<exists>body\<in>set (trackedBlocks sslConfig). blockHasBoth ''example.com'' body"
    by code_simp
  from IsSSLEnabled_blocks [of "''example.com''" splitConfig "[Some splitConfig]"] c'
  have e: "IsSSLEnabled [Some splitConfig] ''example.com'' = False"
    by blast
  from IsSSLEnabled_blocks [of "''example.com''" sslConfig "[Some sslConfig]"] d
  have f: "IsSSLEnabled [Some sslConfig] ''example.com''"
    by auto
  from c d have g: "\<not> anyBlock ''example.com'' splitConfig" "anyBlock ''example.com'' sslConfig"
    by (simp_all add: anyBlock_def list_ex_iff)
  from a b e f g show ?thesis by blast
qed

end
